theory Spec2Isabelle
  imports Main
begin

section \<open>Shared types\<close>

text \<open>
  \<^verbatim>\<open>BinaryPlatform\<close> is the return type of \<^verbatim>\<open>getPlatform()\<close>: the three families the
  code branches on, and any other value of \<^verbatim>\<open>process.platform\<close>.
\<close>

datatype BinaryPlatform = Win | Linux | Mac | OtherPlatform string

text \<open>
  \<^verbatim>\<open>BuildGpu\<close> is a backend name or the value \<^verbatim>\<open>false\<close>. What \<^verbatim>\<open>getGpuType()\<close>
  reports is a \<^verbatim>\<open>BuildGpu\<close> or \<^verbatim>\<open>undefined\<close>/\<^verbatim>\<open>null\<close>, modelled as an option.
\<close>

datatype BuildGpu = GpuFalse | GpuName string

section \<open>testBindingBinary.ts: the protocol\<close>

datatype ParentToChildMessage =
    Start string BuildGpu
  | Test string BuildGpu
  | Exit

datatype ChildToParentMessage = Ready | Loaded | Done

section \<open>testBindingBinary.ts: the parent side\<close>

text \<open>
  The promise returned by \<^verbatim>\<open>testBindingBinary\<close> either resolves to a boolean or rejects
  with one of two errors: "Binding binary load test timed out" and "Binding binary test
  failed to run a test process". A rejected promise is what an awaiting caller sees as a
  thrown exception.
\<close>

datatype rejection = TimedOutError | ForkFailedError

datatype outcome = Resolved bool | Rejected rejection

datatype fork_type = Electron | Node

text \<open>
  The handle returned by \<^verbatim>\<open>fork\<close>. \<open>exitCode\<close> is Node's \<^verbatim>\<open>subProcess.exitCode\<close>,
  \<open>exited\<close> the flag of the Electron branch, \<open>killCalled\<close> records a call of
  \<^verbatim>\<open>subProcess.kill\<close>, \<open>exitHook\<close> the listener installed with
  \<^verbatim>\<open>process.on("exit", ...)\<close>, \<open>outbox\<close> the messages handed to
  \<^verbatim>\<open>send\<close>/\<^verbatim>\<open>postMessage\<close> in order, and \<open>exitSeen\<close> that the parent has seen
  the child gone (its exit event was delivered, or the handle was dead right after the fork).
\<close>

record subprocess =
  exitCode :: "int option"
  exited :: bool
  exitSeen :: bool
  killCalled :: bool
  pipeSet :: bool
  exitHook :: bool
  outbox :: "ParentToChildMessage list"

record request =
  bindingBinaryPath :: string
  gpu :: BuildGpu
  testTimeout :: nat
  pipeOutputOnNode :: bool

text \<open>
  The variables the two promise executors close over. \<open>timeoutHandle\<close> is true while the
  timer is armed; \<open>promise\<close> is the settlement of \<^verbatim>\<open>Promise.race\<close>, where the first
  \<^verbatim>\<open>resolve\<close>/\<^verbatim>\<open>reject\<close> wins and later ones have no effect; \<open>subProcessAssigned\<close>
  says whether the variable \<^verbatim>\<open>subProcess\<close> already holds the handle \<open>child\<close>.
\<close>

record supervisor =
  testPassed :: bool
  forkSucceeded :: bool
  testFinished :: bool
  timeoutHandle :: bool
  promise :: "outcome option"
  subProcessAssigned :: bool
  child :: subprocess

definition settle :: "outcome \<Rightarrow> supervisor \<Rightarrow> supervisor" where
  "settle r s = (if promise s = None then s\<lparr>promise := Some r\<rparr> else s)"

text \<open>
  \<^verbatim>\<open>cleanupNodeFork\<close> and \<^verbatim>\<open>cleanupElectronFork\<close>. The Electron branch kills when
  its flag \<open>exited\<close> is unset or \<^verbatim>\<open>subProcess.pid\<close> is still set; the pid is unset once
  the child has exited, so the second condition only repeats the kill of a child that was
  already sent one.
\<close>

definition killProcess :: "fork_type \<Rightarrow> subprocess \<Rightarrow> subprocess" where
  "killProcess ft h =
     (case ft of
        Node \<Rightarrow>
          (if exitCode h = None then h\<lparr>killCalled := True, exitHook := False\<rparr>
           else h\<lparr>exitHook := False\<rparr>)
      | Electron \<Rightarrow>
          (if \<not> exited h then h\<lparr>killCalled := True, exited := True, exitHook := False\<rparr>
           else h\<lparr>exitHook := False\<rparr>))"

definition pipeMessages :: "fork_type \<Rightarrow> request \<Rightarrow> subprocess \<Rightarrow> subprocess" where
  "pipeMessages ft rq h =
     (case ft of
        Electron \<Rightarrow> h
      | Node \<Rightarrow> (if \<not> pipeOutputOnNode rq \<or> pipeSet h then h else h\<lparr>pipeSet := True\<rparr>))"

definition sendMessage :: "ParentToChildMessage \<Rightarrow> supervisor \<Rightarrow> supervisor" where
  "sendMessage m s = s\<lparr>child := (child s)\<lparr>outbox := outbox (child s) @ [m]\<rparr>\<rparr>"

definition cleanup :: "fork_type \<Rightarrow> supervisor \<Rightarrow> supervisor" where
  "cleanup ft s =
     (let s1 = s\<lparr>testFinished := True, timeoutHandle := False\<rparr>
      in if subProcessAssigned s1 then s1\<lparr>child := killProcess ft (child s1)\<rparr> else s1)"

definition done_cb :: "fork_type \<Rightarrow> supervisor \<Rightarrow> supervisor" where
  "done_cb ft s =
     cleanup ft
       (if \<not> forkSucceeded s then settle (Rejected ForkFailedError) s
        else settle (Resolved (testPassed s)) s)"

definition onMessage :: "fork_type \<Rightarrow> request \<Rightarrow> ChildToParentMessage \<Rightarrow> supervisor \<Rightarrow> supervisor" where
  "onMessage ft rq m s =
     (case m of
        Ready \<Rightarrow> sendMessage (Start (bindingBinaryPath rq) (gpu rq)) (s\<lparr>forkSucceeded := True\<rparr>)
      | Loaded \<Rightarrow>
          sendMessage (Test (bindingBinaryPath rq) (gpu rq))
            (s\<lparr>child := pipeMessages ft rq (child s)\<rparr>)
      | Done \<Rightarrow> sendMessage Exit (s\<lparr>testPassed := True\<rparr>))"

definition onExit :: "fork_type \<Rightarrow> int \<Rightarrow> supervisor \<Rightarrow> supervisor" where
  "onExit ft code s = done_cb ft (if code \<noteq> 0 then s\<lparr>testPassed := False\<rparr> else s)"

text \<open>
  The listener of the child's exit event in \<^verbatim>\<open>createTestProcess\<close>. Node delivers the
  exit code, or \<^verbatim>\<open>null\<close> when a signal ended the child, and the listener passes
  \<^verbatim>\<open>code ?? -1\<close>. The Electron listener passes its code on unchanged; its type is a
  number, and an absent code compares unequal to 0 just as -1 does.
\<close>

definition exitListener :: "fork_type \<Rightarrow> int option \<Rightarrow> supervisor \<Rightarrow> supervisor" where
  "exitListener ft code s =
     (let h = child s;
          h1 = (case ft of
                  Node \<Rightarrow> killProcess Node (h\<lparr>exitCode := code, exitSeen := True\<rparr>)
                | Electron \<Rightarrow> killProcess Electron (h\<lparr>exited := True, exitSeen := True\<rparr>))
      in onExit ft (case code of None \<Rightarrow> - 1 | Some c \<Rightarrow> c) (s\<lparr>child := h1\<rparr>))"

definition timeoutCallback :: "fork_type \<Rightarrow> supervisor \<Rightarrow> supervisor" where
  "timeoutCallback ft s = cleanup ft (settle (Rejected TimedOutError) s)"

text \<open>
  What the event loop delivers to the parent: a message of the child, the child's exit
  event, or the expiry of the timer set for \<open>testTimeout\<close> milliseconds. A timer that was
  cleared does not fire.
\<close>

datatype event = ChildMessage ChildToParentMessage | ChildExit "int option" | TimeoutElapsed

definition step :: "fork_type \<Rightarrow> request \<Rightarrow> supervisor \<Rightarrow> event \<Rightarrow> supervisor" where
  "step ft rq s e =
     (case e of
        ChildMessage m \<Rightarrow> onMessage ft rq m s
      | ChildExit code \<Rightarrow> exitListener ft code s
      | TimeoutElapsed \<Rightarrow> (if timeoutHandle s then timeoutCallback ft s else s))"

text \<open>
  The state of the child right after \<^verbatim>\<open>fork\<close> returns: running, or (Node branch only)
  already marked killed or exited, with the exit code it then has.
\<close>

datatype spawn = SpawnAlive | SpawnDead "int option"

definition fresh_subprocess :: subprocess where
  "fresh_subprocess =
     \<lparr>exitCode = None, exited = False, exitSeen = False, killCalled = False,
      pipeSet = False, exitHook = True, outbox = []\<rparr>"

text \<open>
  The two executors of \<^verbatim>\<open>Promise.race\<close> run synchronously: the first arms the timer,
  the second calls \<^verbatim>\<open>createTestProcess\<close>, assigns its result to \<^verbatim>\<open>subProcess\<close> and
  kills the child when the test has already finished.
\<close>

definition start :: "fork_type \<Rightarrow> spawn \<Rightarrow> supervisor" where
  "start ft sp =
     (let s0 = \<lparr>testPassed = False, forkSucceeded = False, testFinished = False,
                timeoutHandle = True, promise = None, subProcessAssigned = False,
                child = fresh_subprocess\<rparr>;
          s1 = (case (ft, sp) of
                  (Node, SpawnDead code) \<Rightarrow>
                    onExit Node (case code of None \<Rightarrow> - 1 | Some c \<Rightarrow> c)
                      (s0\<lparr>child := killProcess Node
                                   (fresh_subprocess\<lparr>exitCode := code, exitSeen := True\<rparr>)\<rparr>)
                | _ \<Rightarrow> s0);
          s2 = s1\<lparr>subProcessAssigned := True\<rparr>
      in if testFinished s2 then s2\<lparr>child := killProcess ft (child s2)\<rparr> else s2)"

definition run :: "fork_type \<Rightarrow> request \<Rightarrow> spawn \<Rightarrow> event list \<Rightarrow> supervisor" where
  "run ft rq sp evs = foldl (step ft rq) (start ft sp) evs"

text \<open>The child is no longer running: its exit was observed, or it was sent a kill.\<close>

definition stopped :: "subprocess \<Rightarrow> bool" where
  "stopped h = (exitSeen h \<or> killCalled h)"

text \<open>
  \<^verbatim>\<open>testBindingBinary\<close> itself. The host is what the function reads from its
  surroundings: the base name of its own module file, the platform, the \<^verbatim>\<open>SNAP\<close>
  environment variable, the runtime flags, the result of \<^verbatim>\<open>nodeSea.isSea()\<close> (\<open>None\<close>
  when importing \<^verbatim>\<open>node:sea\<close> or the call throws, which the code ignores), and whether
  \<^verbatim>\<open>import("electron")\<close> succeeds.
\<close>

record host =
  detectedFileName :: string
  getPlatform :: BinaryPlatform
  envSNAP :: "string option"
  runningInBun :: bool
  runningInElectron :: bool
  isSea :: "bool option"
  electronImportable :: bool

definition expectedFileName :: string where
  "expectedFileName = ''testBindingBinary''"

definition startsWith :: "string \<Rightarrow> string \<Rightarrow> bool" where
  "startsWith s p = (take (length p) s = p)"

definition seaDetected :: "host \<Rightarrow> bool" where
  "seaDetected h =
     ((getPlatform h = Linux \<and> envSNAP h \<noteq> None) \<and> \<not> runningInBun h \<and> \<not> runningInElectron h \<and>
      isSea h = Some True)"

definition getForkFunction :: "host \<Rightarrow> fork_type" where
  "getForkFunction h = (if runningInElectron h \<and> electronImportable h then Electron else Node)"

text \<open>
  The result of a call, given the events the event loop delivers afterwards: how the
  returned promise is settled (\<open>None\<close> while it is pending), whether the warning was
  printed, and the state of the parent side (\<open>None\<close> when no child process was forked).
\<close>

record test_run =
  returned :: "outcome option"
  warned :: bool
  forked :: "supervisor option"

definition testBindingBinary :: "host \<Rightarrow> request \<Rightarrow> spawn \<Rightarrow> event list \<Rightarrow> test_run" where
  "testBindingBinary h rq sp evs =
     (if \<not> startsWith (detectedFileName h) expectedFileName
      then \<lparr>returned = Some (Resolved True), warned = True, forked = None\<rparr>
      else if seaDetected h
      then \<lparr>returned = Some (Resolved True), warned = True, forked = None\<rparr>
      else (let s = run (getForkFunction h) rq sp evs
            in \<lparr>returned = promise s, warned = False, forked = Some s\<rparr>))"

subsection \<open>Notions used to state the properties of the parent side\<close>

text \<open>The messages the parent sends in answer to one event.\<close>

definition reply :: "request \<Rightarrow> event \<Rightarrow> ParentToChildMessage list" where
  "reply rq e =
     (case e of
        ChildMessage Ready \<Rightarrow> [Start (bindingBinaryPath rq) (gpu rq)]
      | ChildMessage Loaded \<Rightarrow> [Test (bindingBinaryPath rq) (gpu rq)]
      | ChildMessage Done \<Rightarrow> [Exit]
      | _ \<Rightarrow> [])"

definition is_msg :: "event \<Rightarrow> bool" where
  "is_msg e = (case e of ChildMessage m \<Rightarrow> True | _ \<Rightarrow> False)"

definition is_exit :: "event \<Rightarrow> bool" where
  "is_exit e = (case e of ChildExit c \<Rightarrow> True | _ \<Rightarrow> False)"

text \<open>The child was running when \<^verbatim>\<open>createTestProcess\<close> returned (the Electron branch
  does not look).\<close>

definition alive :: "fork_type \<Rightarrow> spawn \<Rightarrow> bool" where
  "alive ft sp = (ft = Electron \<or> sp = SpawnAlive)"

text \<open>The state while nothing but messages has arrived.\<close>

definition waiting :: "supervisor \<Rightarrow> bool" where
  "waiting s =
     (promise s = None \<and> timeoutHandle s \<and> subProcessAssigned s \<and> \<not> testFinished s \<and>
      exitCode (child s) = None \<and> \<not> exited (child s))"

text \<open>The request and host of the end-to-end scenarios.\<close>

definition scenario_request :: request where
  "scenario_request =
     \<lparr>bindingBinaryPath = ''good.bin'', gpu = GpuName ''vulkan'', testTimeout = 5000,
      pipeOutputOnNode = False\<rparr>"

definition scenario_host :: host where
  "scenario_host =
     \<lparr>detectedFileName = ''testBindingBinary.js'', getPlatform = Linux, envSNAP = None,
      runningInBun = False, runningInElectron = False, isSea = Some False,
      electronImportable = False\<rparr>"

section \<open>testBindingBinary.ts: the child side\<close>

text \<open>
  The loaded binding is native code. It is modelled by a record of its functions over a
  native state \<open>'n\<close>; a function that throws returns \<open>None\<close>. \<^verbatim>\<open>getGpuType\<close> reports a
  \<^verbatim>\<open>BuildGpu\<close> or \<^verbatim>\<open>undefined\<close> (the inner \<open>None\<close>).
\<close>

datatype BindingCall =
    SetLoggerLogLevel nat
  | LoadBackends "string option"
  | GetGpuType
  | Init
  | GetGpuVramInfo
  | GetGpuDeviceInfo
  | EnsureGpuDeviceIsSupported

record 'n BindingModule =
  setLoggerLogLevel :: "nat \<Rightarrow> 'n \<Rightarrow> 'n option"
  loadBackends :: "string option \<Rightarrow> 'n \<Rightarrow> 'n option"
  getGpuType :: "'n \<Rightarrow> BuildGpu option option"
  init :: "'n \<Rightarrow> 'n option"
  getGpuVramInfo :: "'n \<Rightarrow> 'n option"
  getGpuDeviceInfo :: "'n \<Rightarrow> 'n option"
  ensureGpuDeviceIsSupported :: "'n \<Rightarrow> 'n option"

text \<open>
  What the child reads from its surroundings: \<^verbatim>\<open>require\<close> (\<open>None\<close> when it throws), the
  entry of \<^verbatim>\<open>LlamaLogLevelToAddonLogLevel\<close> for the error level, and
  \<^verbatim>\<open>path.dirname(path.resolve(p))\<close>.
\<close>

record 'n child_env =
  require :: "string \<Rightarrow> ('n BindingModule \<times> 'n) option"
  errorLogLevel :: "nat option"
  binaryDirectory :: "string \<Rightarrow> string"

datatype test_failure = RequireFailed | NotLoaded | Threw BindingCall | GpuTypeMismatch

datatype child_action = Send ChildToParentMessage | ProcessExit int

text \<open>The calls made so far, and the native state or the error that was thrown.\<close>

type_synonym 'n attempt = "BindingCall list \<times> (test_failure + 'n)"

definition call :: "BindingCall \<Rightarrow> ('n \<Rightarrow> 'n option) \<Rightarrow> 'n attempt \<Rightarrow> 'n attempt" where
  "call c f a =
     (case snd a of
        Inl e \<Rightarrow> a
      | Inr n \<Rightarrow> (fst a @ [c], case f n of None \<Rightarrow> Inl (Threw c) | Some n' \<Rightarrow> Inr n'))"

text \<open>The body of the \<^verbatim>\<open>try\<close> of the "test" handler, for a loaded binding.\<close>

definition bindingTest :: "string \<Rightarrow> BuildGpu \<Rightarrow> 'n BindingModule \<Rightarrow> 'n \<Rightarrow> 'n attempt" where
  "bindingTest dir g b n =
     (case call (LoadBackends None) (loadBackends b None) ([], Inr n) of
        (cs, Inl e) \<Rightarrow> (cs, Inl e)
      | (cs, Inr n1) \<Rightarrow>
          (case getGpuType b n1 of
             None \<Rightarrow> (cs @ [GetGpuType], Inl (Threw GetGpuType))
           | Some loadedGpu \<Rightarrow>
               (case call GetGpuDeviceInfo (getGpuDeviceInfo b)
                      (call GetGpuVramInfo (getGpuVramInfo b)
                        (call Init (init b)
                          (if loadedGpu = None \<or> (loadedGpu = Some GpuFalse \<and> g \<noteq> GpuFalse)
                           then call (LoadBackends (Some dir)) (loadBackends b (Some dir))
                                  (cs @ [GetGpuType], Inr n1)
                           else (cs @ [GetGpuType], Inr n1)))) of
                  (cs', Inl e) \<Rightarrow> (cs', Inl e)
                | (cs', Inr n2) \<Rightarrow>
                    (case getGpuType b n2 of
                       None \<Rightarrow> (cs' @ [GetGpuType], Inl (Threw GetGpuType))
                     | Some gpuType \<Rightarrow>
                         (if gpuType \<noteq> Some g then (cs' @ [GetGpuType], Inl GpuTypeMismatch)
                          else call EnsureGpuDeviceIsSupported (ensureGpuDeviceIsSupported b)
                                 (cs' @ [GetGpuType], Inr n2))))))"

text \<open>
  The child's message handler: the variable \<^verbatim>\<open>binding\<close> afterwards, the calls made on
  the binding, what the handler emits (a message to the parent or the end of the process
  with an exit code), and the error caught, if any.
\<close>

record 'n reaction =
  binding :: "('n BindingModule \<times> 'n) option"
  calls :: "BindingCall list"
  actions :: "child_action list"
  failure :: "test_failure option"

definition childOnMessage ::
  "'n child_env \<Rightarrow> ParentToChildMessage \<Rightarrow> ('n BindingModule \<times> 'n) option \<Rightarrow> 'n reaction" where
  "childOnMessage env m bnd =
     (case m of
        Start p g \<Rightarrow>
          (case require env p of
             None \<Rightarrow>
               \<lparr>binding = bnd, calls = [], actions = [ProcessExit 1], failure = Some RequireFailed\<rparr>
           | Some (b, n) \<Rightarrow>
               (case errorLogLevel env of
                  None \<Rightarrow> \<lparr>binding = Some (b, n), calls = [], actions = [Send Loaded], failure = None\<rparr>
                | Some l \<Rightarrow>
                    (case setLoggerLogLevel b l n of
                       None \<Rightarrow>
                         \<lparr>binding = Some (b, n), calls = [SetLoggerLogLevel l],
                          actions = [ProcessExit 1], failure = Some (Threw (SetLoggerLogLevel l))\<rparr>
                     | Some n' \<Rightarrow>
                         \<lparr>binding = Some (b, n'), calls = [SetLoggerLogLevel l],
                          actions = [Send Loaded], failure = None\<rparr>)))
      | Test p g \<Rightarrow>
          (case bnd of
             None \<Rightarrow> \<lparr>binding = None, calls = [], actions = [ProcessExit 1], failure = Some NotLoaded\<rparr>
           | Some (b, n) \<Rightarrow>
               (case bindingTest (binaryDirectory env p) g b n of
                  (cs, Inl e) \<Rightarrow>
                    \<lparr>binding = Some (b, n), calls = cs, actions = [ProcessExit 1], failure = Some e\<rparr>
                | (cs, Inr n') \<Rightarrow>
                    \<lparr>binding = Some (b, n'), calls = cs, actions = [Send Done], failure = None\<rparr>))
      | Exit \<Rightarrow> \<lparr>binding = bnd, calls = [], actions = [ProcessExit 0], failure = None\<rparr>)"

text \<open>A binding whose calls all succeed and that reports the backend \<open>t\<close>.\<close>

definition reporting_binding :: "BuildGpu option \<Rightarrow> unit BindingModule" where
  "reporting_binding t =
     \<lparr>setLoggerLogLevel = (\<lambda>l n. Some n), loadBackends = (\<lambda>d n. Some n),
      getGpuType = (\<lambda>n. Some t), init = Some, getGpuVramInfo = Some, getGpuDeviceInfo = Some,
      ensureGpuDeviceIsSupported = Some\<rparr>"

definition scenario_child_env :: "BuildGpu option \<Rightarrow> unit child_env" where
  "scenario_child_env t =
     \<lparr>require = (\<lambda>p. Some (reporting_binding t, ())), errorLogLevel = Some 2,
      binaryDirectory = (\<lambda>p. ''/opt/bins'')\<rparr>"

text \<open>What the parent is delivered of what the child's handler emits: a message sent, or
  the exit of the process with its code.\<close>

definition delivered :: "child_action list \<Rightarrow> event list" where
  "delivered as =
     map (\<lambda>a. case a of Send m \<Rightarrow> ChildMessage m | ProcessExit c \<Rightarrow> ChildExit (Some c)) as"

text \<open>
  A binding whose backend plugins lie beside the binary: its native state says whether
  \<^verbatim>\<open>loadBackends\<close> was given a directory, and it reports cuda only then.
\<close>

definition sidecar_binding :: "bool BindingModule" where
  "sidecar_binding =
     \<lparr>setLoggerLogLevel = (\<lambda>l n. Some n),
      loadBackends = (\<lambda>d n. Some (n \<or> d \<noteq> None)),
      getGpuType = (\<lambda>n. Some (if n then Some (GpuName ''cuda'') else None)),
      init = Some, getGpuVramInfo = Some, getGpuDeviceInfo = Some,
      ensureGpuDeviceIsSupported = Some\<rparr>"

definition sidecar_child_env :: "bool child_env" where
  "sidecar_child_env =
     \<lparr>require = (\<lambda>p. Some (sidecar_binding, False)), errorLogLevel = Some 2,
      binaryDirectory = (\<lambda>p. ''/opt/bins'')\<rparr>"

section \<open>detectAvailableComputeLayers.ts: strings and library functions\<close>

text \<open>
  Strings are lists of characters with codes below 256. Case conversion changes the
  letters A to Z and a to z only; the code compares converted strings with ASCII
  patterns, and no other character converts to an ASCII one.
\<close>

definition toLowerChar :: "char \<Rightarrow> char" where
  "toLowerChar c =
     (case map_of (zip ''ABCDEFGHIJKLMNOPQRSTUVWXYZ'' ''abcdefghijklmnopqrstuvwxyz'') c of
        Some l \<Rightarrow> l
      | None \<Rightarrow> c)"

definition toUpperChar :: "char \<Rightarrow> char" where
  "toUpperChar c =
     (case map_of (zip ''abcdefghijklmnopqrstuvwxyz'' ''ABCDEFGHIJKLMNOPQRSTUVWXYZ'') c of
        Some u \<Rightarrow> u
      | None \<Rightarrow> c)"

definition toLowerCase :: "string \<Rightarrow> string" where
  "toLowerCase s = map toLowerChar s"

definition toUpperCase :: "string \<Rightarrow> string" where
  "toUpperCase s = map toUpperChar s"

text \<open>\<^verbatim>\<open>s.includes(p)\<close>: \<open>p\<close> occurs in \<open>s\<close>.\<close>

fun includes_str :: "string \<Rightarrow> string \<Rightarrow> bool" where
  "includes_str [] p = (p = [])"
| "includes_str (c # cs) p = (startsWith (c # cs) p \<or> includes_str cs p)"

text \<open>\<^verbatim>\<open>s.split(sep)\<close> for a separator of one character.\<close>

fun split_char :: "char \<Rightarrow> string \<Rightarrow> string list" where
  "split_char sep [] = [[]]"
| "split_char sep (c # cs) =
     (if c = sep then [] # split_char sep cs
      else (case split_char sep cs of
              w # ws \<Rightarrow> (c # w) # ws
            | [] \<Rightarrow> [[c]]))"

text \<open>
  \<^verbatim>\<open>s.split(sep)\<close> for a separator of several characters: \<open>skip\<close> counts the characters
  of a separator just found that are still to be passed over, \<open>acc\<close> holds the current
  piece in reverse.
\<close>

fun split_from :: "string \<Rightarrow> nat \<Rightarrow> string \<Rightarrow> string \<Rightarrow> string list" where
  "split_from sep skip acc [] = [rev acc]"
| "split_from sep skip acc (c # cs) =
     (if 0 < skip then split_from sep (skip - 1) acc cs
      else if startsWith (c # cs) sep then rev acc # split_from sep (length sep - 1) [] cs
      else split_from sep 0 (c # acc) cs)"

definition split_str :: "string \<Rightarrow> string \<Rightarrow> string list" where
  "split_str sep s = split_from sep 0 [] s"

text \<open>\<^verbatim>\<open>s.trim()\<close>: the white space among the characters below 256.\<close>

definition is_space :: "char \<Rightarrow> bool" where
  "is_space c = (c \<in> set [CHR 0x09, CHR 0x0A, CHR 0x0B, CHR 0x0C, CHR 0x0D, CHR 0x20, CHR 0xA0])"

definition trim :: "string \<Rightarrow> string" where
  "trim s = rev (dropWhile is_space (rev (dropWhile is_space s)))"

text \<open>\<^verbatim>\<open>Array.from(new Set(xs))\<close>: the first occurrence of each element, in order.\<close>

definition unique :: "'a list \<Rightarrow> 'a list" where
  "unique xs = rev (remdups (rev xs))"

text \<open>
  \<^verbatim>\<open>Array.prototype.sort\<close> with a comparison function is a stable sort: elements the
  function reports as equal keep their order. Insertion from the right does that.
\<close>

fun insort_by :: "('a \<Rightarrow> 'a \<Rightarrow> int) \<Rightarrow> 'a \<Rightarrow> 'a list \<Rightarrow> 'a list" where
  "insort_by cmp x [] = [x]"
| "insort_by cmp x (y # ys) = (if cmp x y \<le> 0 then x # y # ys else y # insort_by cmp x ys)"

definition sort_by :: "('a \<Rightarrow> 'a \<Rightarrow> int) \<Rightarrow> 'a list \<Rightarrow> 'a list" where
  "sort_by cmp xs = foldr (insort_by cmp) xs []"

text \<open>
  A version as the semver library holds it after \<^verbatim>\<open>coerce\<close>: major, minor, patch.
  \<^verbatim>\<open>semver.compare\<close> compares the three numbers in that order.
\<close>

type_synonym version = "nat \<times> nat \<times> nat"

definition compareIdentifiers :: "nat \<Rightarrow> nat \<Rightarrow> int" where
  "compareIdentifiers a b = (if a = b then 0 else if a < b then - 1 else 1)"

definition semver_compare :: "version \<Rightarrow> version \<Rightarrow> int" where
  "semver_compare a b =
     (case (a, b) of
        ((a1, a2, a3), (b1, b2, b3)) \<Rightarrow>
          (if compareIdentifiers a1 b1 \<noteq> 0 then compareIdentifiers a1 b1
           else if compareIdentifiers a2 b2 \<noteq> 0 then compareIdentifiers a2 b2
           else compareIdentifiers a3 b3))"

section \<open>detectAvailableComputeLayers.ts: what the detector reads\<close>

datatype command = PowershellVideoControllers | LspciDisplayControllers | SystemProfilerDisplays

text \<open>
  The surroundings of the detector: \<^verbatim>\<open>process.env\<close>; \<^verbatim>\<open>fs.pathExists\<close>, which answers
  false instead of failing; \<^verbatim>\<open>fs.readdir\<close>, \<open>None\<close> when it throws; the standard output
  of the three commands run with \<^verbatim>\<open>execAsync\<close>, \<open>None\<close> when the command fails;
  \<^verbatim>\<open>path.join\<close>; \<^verbatim>\<open>semver.valid(semver.coerce(v))\<close>, \<open>None\<close> for \<^verbatim>\<open>null\<close> (the
  library answers \<^verbatim>\<open>null\<close> for a string it cannot read and does not throw, so the
  \<^verbatim>\<open>catch\<close> around it in the comparison function is never entered); and the default
  search locations of \<^verbatim>\<open>hasFileInPath\<close>.
\<close>

record system =
  processEnv :: "string \<Rightarrow> string option"
  pathExists :: "string \<Rightarrow> bool"
  readdir :: "string \<Rightarrow> string list option"
  execAsync :: "command \<Rightarrow> string option"
  pathJoin :: "string list \<Rightarrow> string"
  semverValidCoerce :: "string \<Rightarrow> version option"
  defaultSearchPaths :: "string list"

text \<open>The entries of a list that are not \<^verbatim>\<open>undefined\<close>.\<close>

definition present :: "'a option list \<Rightarrow> 'a list" where
  "present xs = concat (map (\<lambda>x. case x of None \<Rightarrow> [] | Some v \<Rightarrow> [v]) xs)"

text \<open>
  Modelled from the spec: \<^verbatim>\<open>hasFileInPath.js\<close> is imported by the detector and is not
  among the sources. The spec's PathProbe "tests whether a named shared library exists
  anywhere in a list of candidate directories (plus default search locations)"; it is
  "pure, synchronous, no state". Entries of the list that are \<^verbatim>\<open>undefined\<close> are
  passed over.
\<close>

definition hasFileInPath :: "system \<Rightarrow> string \<Rightarrow> string option list \<Rightarrow> bool" where
  "hasFileInPath sys fileToSearch additionalSearchPaths =
     list_ex (\<lambda>dir. pathExists sys (pathJoin sys [dir, fileToSearch]))
       (defaultSearchPaths sys @ present additionalSearchPaths)"

text \<open>
  Modelled from the spec: \<^verbatim>\<open>asyncSome.js\<close> is not among the sources. By the spec a check
  "succeeds if any acceptable major-version-suffixed filename is present", an "OR across
  version suffixes and search paths".
\<close>

definition asyncSome :: "bool list \<Rightarrow> bool" where
  "asyncSome bs = list_ex (\<lambda>b. b) bs"

text \<open>
  Modelled from the spec: \<^verbatim>\<open>asyncEvery.js\<close> is not among the sources. By the spec the
  runtime is found "only if all of" the library classes are, "an AND across library
  classes".
\<close>

definition asyncEvery :: "bool list \<Rightarrow> bool" where
  "asyncEvery bs = list_all (\<lambda>b. b) bs"

section \<open>detectAvailableComputeLayers.ts: the SYCL probe\<close>

definition targetDeviceIds :: "string list" where
  "targetDeviceIds =
     [''7D55'', ''64A0'', ''7D45'', ''7D40'',
      ''7D67'', ''7D51'', ''7D41'', ''56A0'',
      ''56A1'', ''56A2'', ''56A5'', ''56A6'',
      ''E20B'', ''E20C'', ''E212'', ''E211'']"

definition is_hex :: "char \<Rightarrow> bool" where
  "is_hex c = (c \<in> set ''0123456789ABCDEFabcdef'')"

text \<open>The group captured by \<^verbatim>\<open>/DeviceID: ([0-9A-F]{4})/i\<close> at its first match.\<close>

fun match_DeviceID :: "string \<Rightarrow> string option" where
  "match_DeviceID [] = None"
| "match_DeviceID (c # cs) =
     (if toLowerCase (take 10 (c # cs)) = ''deviceid: '' \<and> length (take 4 (drop 10 (c # cs))) = 4 \<and>
         list_all is_hex (take 4 (drop 10 (c # cs)))
      then Some (take 4 (drop 10 (c # cs)))
      else match_DeviceID cs)"

definition arcNamesWin :: "string \<Rightarrow> string list" where
  "arcNamesWin stdout =
     map (\<lambda>line.
            case split_str '' Name: '' line of
              w # x # ws \<Rightarrow>
                (case split_str '' VID: '' x of
                   n # ns \<Rightarrow> (if n = [] then line else n)
                 | [] \<Rightarrow> line)
            | _ \<Rightarrow> line)
       (filter (\<lambda>line.
                  line \<noteq> [] \<and>
                  (case match_DeviceID line of
                     None \<Rightarrow> False
                   | Some deviceId \<Rightarrow> toUpperCase deviceId \<in> set targetDeviceIds))
          (map trim (split_char (CHR 0x0A) stdout)))"

definition controllerPrefixes :: "string list" where
  "controllerPrefixes =
     [''VGA compatible controller: '', ''3D controller: '', ''Display controller: '']"

text \<open>
  The group captured by
  \<^verbatim>\<open>/(?:VGA compatible controller|3D controller|Display controller): (.+)/\<close> at its first
  match: the characters up to the end of the line, at least one.
\<close>

fun match_controller :: "string \<Rightarrow> string option" where
  "match_controller [] = None"
| "match_controller (c # cs) =
     (case filter (\<lambda>p. startsWith (c # cs) p) controllerPrefixes of
        p # ps \<Rightarrow>
          (if takeWhile (\<lambda>x. x \<noteq> CHR 0x0A \<and> x \<noteq> CHR 0x0D) (drop (length p) (c # cs)) \<noteq> []
           then Some (takeWhile (\<lambda>x. x \<noteq> CHR 0x0A \<and> x \<noteq> CHR 0x0D) (drop (length p) (c # cs)))
           else match_controller cs)
      | [] \<Rightarrow> match_controller cs)"

definition arcNamesLinux :: "string \<Rightarrow> string list" where
  "arcNamesLinux stdout =
     filter (\<lambda>name. includes_str (toLowerCase name) ''arc'')
       (map (\<lambda>line. case match_controller line of Some m \<Rightarrow> trim m | None \<Rightarrow> trim line)
          (filter (\<lambda>line. trim line \<noteq> []) (split_char (CHR 0x0A) stdout)))"

definition arcNamesMac :: "string \<Rightarrow> string list" where
  "arcNamesMac stdout =
     filter (\<lambda>name. name \<noteq> [] \<and> includes_str (toLowerCase name) ''arc'')
       (present
          (map (\<lambda>line. case split_char (CHR '':'') line of
                          w # x # ws \<Rightarrow> Some (trim x)
                        | _ \<Rightarrow> None)
             (filter (\<lambda>line. includes_str line ''Chipset Model'') (split_char (CHR 0x0A) stdout))))"

text \<open>The \<^verbatim>\<open>catch\<close> of \<^verbatim>\<open>getArcGpuDeviceNames\<close> logs the error and the function returns
  the empty list.\<close>

definition getArcGpuDeviceNames :: "system \<Rightarrow> BinaryPlatform \<Rightarrow> string list" where
  "getArcGpuDeviceNames sys platform =
     (case platform of
        Win \<Rightarrow>
          (case execAsync sys PowershellVideoControllers of
             None \<Rightarrow> []
           | Some stdout \<Rightarrow> arcNamesWin stdout)
      | Linux \<Rightarrow>
          (case execAsync sys LspciDisplayControllers of
             None \<Rightarrow> []
           | Some stdout \<Rightarrow> arcNamesLinux stdout)
      | Mac \<Rightarrow>
          (case execAsync sys SystemProfilerDisplays of
             None \<Rightarrow> []
           | Some stdout \<Rightarrow> arcNamesMac stdout)
      | OtherPlatform other \<Rightarrow> [])"

definition detectSyclSupport :: "system \<Rightarrow> BinaryPlatform \<Rightarrow> bool" where
  "detectSyclSupport sys platform = (0 < length (getArcGpuDeviceNames sys platform))"

section \<open>detectAvailableComputeLayers.ts: CUDA installations\<close>

text \<open>An environment variable with a value other than the empty string.\<close>

definition envNonEmpty :: "system \<Rightarrow> string \<Rightarrow> string option" where
  "envNonEmpty sys name =
     (case processEnv sys name of
        None \<Rightarrow> None
      | Some v \<Rightarrow> (if v = [] then None else Some v))"

definition backslash :: char where
  "backslash = CHR 0x5C"

definition getWindir :: "system \<Rightarrow> string" where
  "getWindir sys =
     (case present (map (envNonEmpty sys)
                      [''windir'', ''WINDIR'', ''SystemRoot'', ''systemroot'', ''SYSTEMROOT'']) of
        v # vs \<Rightarrow> v
      | [] \<Rightarrow> ''C:'' @ [backslash] @ ''Windows'')"

definition systemDrive :: "system \<Rightarrow> string" where
  "systemDrive sys = (case processEnv sys ''SystemDrive'' of None \<Rightarrow> ''C:'' | Some d \<Rightarrow> d)"

definition getWindowsProgramFilesPaths :: "system \<Rightarrow> string list" where
  "getWindowsProgramFilesPaths sys =
     unique
       (filter (pathExists sys)
          (present
             [processEnv sys ''ProgramFiles(Arm)'',
              processEnv sys ''ProgramFiles'',
              processEnv sys ''ProgramFiles(x86)'',
              Some (systemDrive sys @ [backslash] @ ''Program Files (Arm)''),
              Some (systemDrive sys @ [backslash] @ ''Program Files''),
              Some (systemDrive sys @ [backslash] @ ''Program Files (x86)'')]))"

text \<open>
  The comparison function given to \<^verbatim>\<open>sort\<close> in both branches of
  \<^verbatim>\<open>getCudaInstallationPaths\<close>; \<open>k\<close> is the length of the folder prefix cut off by
  \<^verbatim>\<open>slice\<close>.
\<close>

definition compareFolders :: "system \<Rightarrow> nat \<Rightarrow> string \<Rightarrow> string \<Rightarrow> int" where
  "compareFolders sys k a b =
     (case (semverValidCoerce sys (drop k a), semverValidCoerce sys (drop k b)) of
        (Some aVersionValid, Some bVersionValid) \<Rightarrow> semver_compare aVersionValid bVersionValid
      | (Some aVersionValid, None) \<Rightarrow> - 1
      | (None, Some bVersionValid) \<Rightarrow> 1
      | (None, None) \<Rightarrow> 0)"

text \<open>The chain \<^verbatim>\<open>.filter(...).sort(...).reverse()\<close> applied to the names of a directory
  listing, with the folder prefix \<open>cudaFolderPrefix\<close>.\<close>

definition rankedFolderNames :: "system \<Rightarrow> string \<Rightarrow> string list \<Rightarrow> string list" where
  "rankedFolderNames sys cudaFolderPrefix names =
     rev (sort_by (compareFolders sys (length cudaFolderPrefix))
            (filter (\<lambda>name. startsWith (toLowerCase name) cudaFolderPrefix) names))"

text \<open>A directory listing as the code asks for it: the empty list when the directory does
  not exist, \<open>None\<close> when \<^verbatim>\<open>readdir\<close> throws.\<close>

definition listing :: "system \<Rightarrow> string \<Rightarrow> string list option" where
  "listing sys dir = (if pathExists sys dir then readdir sys dir else Some [])"

text \<open>The folders found in the containers, in order; \<open>None\<close> as soon as a listing throws.\<close>

fun installationsIn :: "system \<Rightarrow> string list \<Rightarrow> string list option" where
  "installationsIn sys [] = Some []"
| "installationsIn sys (container # containers) =
     (case listing sys container of
        None \<Rightarrow> None
      | Some names \<Rightarrow>
          (case installationsIn sys containers of
             None \<Rightarrow> None
           | Some others \<Rightarrow>
               Some (map (\<lambda>name. container @ ''/'' @ name) (rankedFolderNames sys ''v'' names)
                     @ others)))"

definition withCudaPath :: "system \<Rightarrow> string list \<Rightarrow> string list" where
  "withCudaPath sys folders =
     (case envNonEmpty sys ''CUDA_PATH'' of None \<Rightarrow> folders | Some p \<Rightarrow> p # folders)"

definition getCudaInstallationPaths :: "system \<Rightarrow> BinaryPlatform \<Rightarrow> string list" where
  "getCudaInstallationPaths sys platform =
     (case platform of
        Win \<Rightarrow>
          (case installationsIn sys
                  (filter (pathExists sys)
                     (map (\<lambda>programFilesPath. programFilesPath @ ''/NVIDIA GPU Computing Toolkit/CUDA'')
                        (getWindowsProgramFilesPaths sys))) of
             None \<Rightarrow> []
           | Some potentialCudaInstallations \<Rightarrow>
               filter (pathExists sys) (withCudaPath sys potentialCudaInstallations))
      | Linux \<Rightarrow>
          (case listing sys ''/usr/local'' of
             None \<Rightarrow> []
           | Some names \<Rightarrow>
               filter (\<lambda>cudaFolder. pathExists sys (cudaFolder @ ''/targets''))
                 (withCudaPath sys
                    (''/usr/local/cuda'' #
                     map (\<lambda>name. ''/usr/local/'' @ name) (rankedFolderNames sys ''cuda-'' names))))
      | _ \<Rightarrow> [])"

text \<open>The loop of \<^verbatim>\<open>getLinuxCudaLibraryPaths\<close>: when a listing throws, the \<^verbatim>\<open>catch\<close>
  leaves \<open>res\<close> as it is by then.\<close>

fun linuxLibraryPathsFrom :: "system \<Rightarrow> string list \<Rightarrow> string list \<Rightarrow> string list" where
  "linuxLibraryPathsFrom sys res [] = res"
| "linuxLibraryPathsFrom sys res (cudaInstallationPath # paths) =
     (if \<not> pathExists sys (cudaInstallationPath @ ''/targets'')
      then linuxLibraryPathsFrom sys res paths
      else (case readdir sys (cudaInstallationPath @ ''/targets'') of
              None \<Rightarrow> res
            | Some names \<Rightarrow>
                linuxLibraryPathsFrom sys
                  (res @ concat (map (\<lambda>name. [cudaInstallationPath @ ''/targets/'' @ name @ ''/lib'',
                                              cudaInstallationPath @ ''/targets/'' @ name @ ''/lib/stubs''])
                                   names))
                  paths))"

definition getLinuxCudaLibraryPaths :: "system \<Rightarrow> string list" where
  "getLinuxCudaLibraryPaths sys = linuxLibraryPathsFrom sys [] (getCudaInstallationPaths sys Linux)"

section \<open>detectAvailableComputeLayers.ts: the probes\<close>

text \<open>The local variable \<^verbatim>\<open>librarySearchPaths\<close> of \<^verbatim>\<open>detectCudaSupport\<close>.\<close>

definition cudaLibrarySearchPaths :: "system \<Rightarrow> BinaryPlatform \<Rightarrow> string option list" where
  "cudaLibrarySearchPaths sys platform =
     (case platform of
        Win \<Rightarrow>
          concat (map (\<lambda>cudaInstallationPath.
                         [Some cudaInstallationPath, Some (pathJoin sys [cudaInstallationPath, ''bin''])])
                    (getCudaInstallationPaths sys Win))
      | Linux \<Rightarrow>
          [processEnv sys ''LD_LIBRARY_PATH'',
           processEnv sys ''CUDA_PATH'',
           Some ''/usr/lib'',
           Some ''/usr/lib64'',
           Some ''/usr/lib/x86_64-linux-gnu'',
           Some ''/usr/lib/aarch64-linux-gnu'',
           Some ''/usr/lib/armv7l-linux-gnu'']
          @ map Some (getLinuxCudaLibraryPaths sys)
      | _ \<Rightarrow> [])"

record cuda_support =
  hasNvidiaDriver :: bool
  hasCudaRuntime :: bool

definition detectCudaSupport :: "system \<Rightarrow> BinaryPlatform \<Rightarrow> cuda_support" where
  "detectCudaSupport sys platform =
     (let librarySearchPaths = cudaLibrarySearchPaths sys platform in
      case platform of
        Win \<Rightarrow>
          \<lparr>hasNvidiaDriver =
             asyncSome
               [hasFileInPath sys ''nvml.dll'' [],
                pathExists sys (pathJoin sys [getWindir sys, ''System32'', ''nvml.dll''])],
           hasCudaRuntime =
             asyncEvery
               [asyncSome
                  [hasFileInPath sys ''cudart64_110.dll'' librarySearchPaths,
                   hasFileInPath sys ''cudart64_11.dll'' librarySearchPaths,
                   hasFileInPath sys ''cudart64_12.dll'' librarySearchPaths,
                   hasFileInPath sys ''cudart64_13.dll'' librarySearchPaths],
                asyncSome
                  [hasFileInPath sys ''cublas64_11.dll'' librarySearchPaths,
                   hasFileInPath sys ''cublas64_12.dll'' librarySearchPaths,
                   hasFileInPath sys ''cublas64_13.dll'' librarySearchPaths],
                asyncSome
                  [hasFileInPath sys ''cublasLt64_11.dll'' librarySearchPaths,
                   hasFileInPath sys ''cublasLt64_12.dll'' librarySearchPaths,
                   hasFileInPath sys ''cublasLt64_13.dll'' librarySearchPaths]]\<rparr>
      | Linux \<Rightarrow>
          \<lparr>hasNvidiaDriver =
             asyncSome
               [hasFileInPath sys ''libnvidia-ml.so'' librarySearchPaths,
                hasFileInPath sys ''libnvidia-ml.so.1'' librarySearchPaths],
           hasCudaRuntime =
             asyncEvery
               [asyncSome
                  [hasFileInPath sys ''libcuda.so'' librarySearchPaths,
                   hasFileInPath sys ''libcuda.so.1'' librarySearchPaths],
                asyncSome
                  [hasFileInPath sys ''libcudart.so'' librarySearchPaths,
                   hasFileInPath sys ''libcudart.so.11'' librarySearchPaths,
                   hasFileInPath sys ''libcudart.so.12'' librarySearchPaths,
                   hasFileInPath sys ''libcudart.so.13'' librarySearchPaths],
                asyncSome
                  [hasFileInPath sys ''libcublas.so'' librarySearchPaths,
                   hasFileInPath sys ''libcublas.so.11'' librarySearchPaths,
                   hasFileInPath sys ''libcublas.so.12'' librarySearchPaths,
                   hasFileInPath sys ''libcublas.so.13'' librarySearchPaths],
                asyncSome
                  [hasFileInPath sys ''libcublasLt.so'' librarySearchPaths,
                   hasFileInPath sys ''libcublasLt.so.11'' librarySearchPaths,
                   hasFileInPath sys ''libcublasLt.so.12'' librarySearchPaths,
                   hasFileInPath sys ''libcublasLt.so.13'' librarySearchPaths]]\<rparr>
      | _ \<Rightarrow> \<lparr>hasNvidiaDriver = False, hasCudaRuntime = False\<rparr>)"

definition termuxLibraryPath :: "system \<Rightarrow> string option" where
  "termuxLibraryPath sys =
     (case processEnv sys ''PREFIX'' of
        None \<Rightarrow> None
      | Some prefix \<Rightarrow>
          (if includes_str (toLowerCase prefix) ''termux'' then Some (prefix @ ''/usr/lib'')
           else None))"

definition detectVulkanSupport :: "system \<Rightarrow> BinaryPlatform \<Rightarrow> bool" where
  "detectVulkanSupport sys platform =
     (case platform of
        Win \<Rightarrow>
          asyncSome
            [hasFileInPath sys ''vulkan-1.dll'' [],
             pathExists sys (pathJoin sys [getWindir sys, ''System32'', ''vulkan-1.dll'']),
             pathExists sys (pathJoin sys [getWindir sys, ''SysWOW64'', ''vulkan-1.dll''])]
      | Linux \<Rightarrow>
          (let librarySearchPaths =
                 [processEnv sys ''LD_LIBRARY_PATH'',
                  Some ''/usr/lib'',
                  Some ''/usr/lib64'',
                  Some ''/usr/lib/x86_64-linux-gnu'',
                  Some ''/usr/lib/aarch64-linux-gnu'',
                  Some ''/usr/lib/armv7l-linux-gnu'',
                  termuxLibraryPath sys]
           in asyncSome
                [hasFileInPath sys ''libvulkan.so'' librarySearchPaths,
                 hasFileInPath sys ''libvulkan.so.1'' librarySearchPaths])
      | Mac \<Rightarrow>
          asyncSome
            [hasFileInPath sys ''libvulkan.dylib'' [],
             hasFileInPath sys ''libvulkan.dylib.1'' []]
      | OtherPlatform other \<Rightarrow> False)"

definition detectMetalSupport :: "BinaryPlatform \<Rightarrow> bool" where
  "detectMetalSupport platform = (platform = Mac)"

text \<open>The object returned by \<^verbatim>\<open>detectAvailableComputeLayers\<close>, as its keys and values
  in the order of the object literal.\<close>

datatype layer_support = Cuda cuda_support | Flag bool

definition detectAvailableComputeLayers :: "system \<Rightarrow> BinaryPlatform \<Rightarrow> (string \<times> layer_support) list" where
  "detectAvailableComputeLayers sys platform =
     [(''cuda'', Cuda (detectCudaSupport sys platform)),
      (''vulkan'', Flag (detectVulkanSupport sys platform)),
      (''metal'', Flag (detectMetalSupport platform)),
      (''sycl'', Flag (detectSyclSupport sys platform))]"

section \<open>An instance of the surroundings for the examples\<close>

text \<open>
  A rendering of \<^verbatim>\<open>semver.valid(semver.coerce(v))\<close> for the examples. \<^verbatim>\<open>coerce\<close> takes
  the first run of at most 16 digits that is not part of a longer run as the major
  version, and up to two further runs of at most 16 digits, each after a dot, as minor
  and patch (0 when absent); the result is valid when no number has a leading zero or
  exceeds \<^verbatim>\<open>Number.MAX_SAFE_INTEGER\<close>.
\<close>

definition is_digit :: "char \<Rightarrow> bool" where
  "is_digit c = (c \<in> set ''0123456789'')"

definition digit_value :: "char \<Rightarrow> nat" where
  "digit_value c =
     (case map_of (zip ''0123456789'' [0, 1, 2, 3, 4, 5, 6, 7, 8, 9]) c of
        Some d \<Rightarrow> d
      | None \<Rightarrow> 0)"

definition decimal :: "string \<Rightarrow> nat" where
  "decimal ds = foldl (\<lambda>n c. 10 * n + digit_value c) 0 ds"

fun scan_major :: "string \<Rightarrow> string \<Rightarrow> (string \<times> string) option" where
  "scan_major ds [] = (if ds \<noteq> [] \<and> length ds \<le> 16 then Some (rev ds, []) else None)"
| "scan_major ds (c # cs) =
     (if is_digit c then scan_major (c # ds) cs
      else if ds \<noteq> [] \<and> length ds \<le> 16 then Some (rev ds, c # cs)
      else scan_major [] cs)"

definition next_component :: "string \<Rightarrow> (string \<times> string) option" where
  "next_component s =
     (case s of
        d # c # cs \<Rightarrow>
          (if d = CHR ''.'' \<and> is_digit c \<and> length (takeWhile is_digit (c # cs)) \<le> 16
           then Some (takeWhile is_digit (c # cs), dropWhile is_digit (c # cs))
           else None)
      | _ \<Rightarrow> None)"

text \<open>Comparison of two digit strings of the same length.\<close>

fun digits_le :: "string \<Rightarrow> string \<Rightarrow> bool" where
  "digits_le [] ys = True"
| "digits_le (x # xs) [] = False"
| "digits_le (x # xs) (y # ys) =
     (digit_value x < digit_value y \<or> (digit_value x = digit_value y \<and> digits_le xs ys))"

text \<open>At most \<^verbatim>\<open>Number.MAX_SAFE_INTEGER\<close>, which is 9007199254740991.\<close>

definition safe_integer :: "string \<Rightarrow> bool" where
  "safe_integer ds = (length ds < 16 \<or> (length ds = 16 \<and> digits_le ds ''9007199254740991''))"

definition numeric_identifier :: "string \<Rightarrow> nat option" where
  "numeric_identifier ds =
     (if (1 < length ds \<and> take 1 ds = ''0'') \<or> \<not> safe_integer ds then None
      else Some (decimal ds))"

definition components :: "string \<Rightarrow> string list" where
  "components rest =
     (case next_component rest of
        None \<Rightarrow> [''0'', ''0'']
      | Some minor \<Rightarrow>
          (case next_component (snd minor) of
             None \<Rightarrow> [fst minor, ''0'']
           | Some patch \<Rightarrow> [fst minor, fst patch]))"

definition semver_valid_coerce :: "string \<Rightarrow> version option" where
  "semver_valid_coerce v =
     (case scan_major [] v of
        None \<Rightarrow> None
      | Some major \<Rightarrow>
          (case map numeric_identifier (fst major # components (snd major)) of
             [Some a, Some b, Some c] \<Rightarrow> Some (a, b, c)
           | _ \<Rightarrow> None))"

text \<open>
  A machine on which \<^verbatim>\<open>/usr/local\<close> lists the given names, every path asked for exists,
  no environment variable is set and no command can be run.
\<close>

definition usr_local_system :: "string list \<Rightarrow> system" where
  "usr_local_system names =
     \<lparr>processEnv = (\<lambda>name. None),
      pathExists = (\<lambda>p. True),
      readdir = (\<lambda>dir. if dir = ''/usr/local'' then Some names else Some []),
      execAsync = (\<lambda>c. None),
      pathJoin = (\<lambda>parts. concat (map (\<lambda>p. ''/'' @ p) parts)),
      semverValidCoerce = semver_valid_coerce,
      defaultSearchPaths = []\<rparr>"

text \<open>A machine with no file, no environment variable and no command that can be run.\<close>

definition bare_system :: system where
  "bare_system =
     \<lparr>processEnv = (\<lambda>name. None),
      pathExists = (\<lambda>p. False),
      readdir = (\<lambda>dir. None),
      execAsync = (\<lambda>c. None),
      pathJoin = (\<lambda>parts. concat (map (\<lambda>p. ''/'' @ p) parts)),
      semverValidCoerce = semver_valid_coerce,
      defaultSearchPaths = [''/usr/bin'']\<rparr>"

section \<open>Notions used to state the properties of the detector\<close>

text \<open>Some of the given file names is found in a default search location or in one of
  the CUDA library search paths of the platform.\<close>

definition foundAmong :: "system \<Rightarrow> BinaryPlatform \<Rightarrow> string list \<Rightarrow> bool" where
  "foundAmong sys platform names =
     list_ex (\<lambda>file.
        list_ex (\<lambda>dir. pathExists sys (pathJoin sys [dir, file]))
          (defaultSearchPaths sys @ present (cudaLibrarySearchPaths sys platform)))
       names"


text \<open>The folder name carries a version that the semver library can read.\<close>

definition parsable :: "system \<Rightarrow> string \<Rightarrow> string \<Rightarrow> bool" where
  "parsable sys cudaFolderPrefix name =
     (semverValidCoerce sys (drop (length cudaFolderPrefix) name) \<noteq> None)"







section \<open>Properties of the parent side\<close>

lemma outbox_killProcess [simp]: "outbox (killProcess ft h) = outbox h"
  by (simp add: killProcess_def split: fork_type.splits)

lemma outbox_pipeMessages [simp]: "outbox (pipeMessages ft rq h) = outbox h"
  by (simp add: pipeMessages_def split: fork_type.splits)

lemma child_settle [simp]: "child (settle r s) = child s"
  by (simp add: settle_def)

lemma outbox_cleanup [simp]: "outbox (child (cleanup ft s)) = outbox (child s)"
  by (simp add: cleanup_def Let_def)

lemma outbox_done_cb [simp]: "outbox (child (done_cb ft s)) = outbox (child s)"
  by (simp add: done_cb_def)

lemma outbox_step: "outbox (child (step ft rq s e)) = outbox (child s) @ reply rq e"
  by (cases e)
     (auto simp: step_def reply_def onMessage_def sendMessage_def exitListener_def onExit_def
        timeoutCallback_def Let_def split: ChildToParentMessage.splits fork_type.splits)

lemma outbox_start: "outbox (child (start ft sp)) = []"
  by (auto simp: start_def Let_def fresh_subprocess_def onExit_def split: fork_type.splits spawn.splits)

lemma outbox_run: "outbox (child (run ft rq sp evs)) = concat (map (reply rq) evs)"
  unfolding run_def
  by (induction evs rule: rev_induct) (simp_all add: outbox_start outbox_step)

lemma promise_settle_Some: "promise s = Some r \<Longrightarrow> promise (settle r' s) = Some r"
  by (simp add: settle_def)

lemma promise_cleanup [simp]: "promise (cleanup ft s) = promise s"
  by (simp add: cleanup_def Let_def)

lemma promise_sendMessage [simp]: "promise (sendMessage m s) = promise s"
  by (simp add: sendMessage_def)

lemma promise_step_stable: "promise s = Some r \<Longrightarrow> promise (step ft rq s e) = Some r"
  by (cases e)
     (auto simp: step_def onMessage_def exitListener_def onExit_def done_cb_def
        timeoutCallback_def settle_def Let_def split: ChildToParentMessage.splits)

lemma promise_foldl_stable:
  "promise s = Some r \<Longrightarrow> promise (foldl (step ft rq) s evs) = Some r"
  by (induction evs arbitrary: s) (simp_all add: promise_step_stable)

lemma stopped_killProcess: "stopped h \<Longrightarrow> stopped (killProcess ft h)"
  by (auto simp: stopped_def killProcess_def split: fork_type.splits)

lemma stopped_cleanup: "stopped (child s) \<Longrightarrow> stopped (child (cleanup ft s))"
  by (simp add: cleanup_def Let_def stopped_killProcess)

lemma stopped_done_cb: "stopped (child s) \<Longrightarrow> stopped (child (done_cb ft s))"
  by (simp add: done_cb_def stopped_cleanup)

lemma flags_pipeMessages [simp]:
  "exitSeen (pipeMessages ft rq h) = exitSeen h"
  "killCalled (pipeMessages ft rq h) = killCalled h"
  by (simp_all add: pipeMessages_def split: fork_type.splits)

lemma stopped_onMessage: "stopped (child s) \<Longrightarrow> stopped (child (onMessage ft rq m s))"
  by (cases m) (simp_all add: onMessage_def sendMessage_def stopped_def)

lemma stopped_exitListener: "stopped (child (exitListener ft code s))"
proof -
  have "stopped (killProcess Node ((child s)\<lparr>exitCode := code, exitSeen := True\<rparr>))"
    by (rule stopped_killProcess) (simp add: stopped_def)
  moreover have "stopped (killProcess Electron ((child s)\<lparr>exited := True, exitSeen := True\<rparr>))"
    by (rule stopped_killProcess) (simp add: stopped_def)
  ultimately show ?thesis
    by (cases ft) (simp_all add: exitListener_def onExit_def Let_def stopped_done_cb)
qed

lemma stopped_step: "stopped (child s) \<Longrightarrow> stopped (child (step ft rq s e))"
  by (cases e)
     (simp_all add: step_def stopped_onMessage stopped_exitListener timeoutCallback_def
        stopped_cleanup)

lemma stopped_foldl_stable:
  "stopped (child s) \<Longrightarrow> stopped (child (foldl (step ft rq) s evs))"
  by (induction evs arbitrary: s) (simp_all add: stopped_step)

lemma waiting_start: "alive ft sp \<Longrightarrow> waiting (start ft sp)"
  by (auto simp: alive_def waiting_def start_def fresh_subprocess_def Let_def
        split: fork_type.splits spawn.splits)

lemma start_flags:
  "alive ft sp \<Longrightarrow> \<not> forkSucceeded (start ft sp) \<and> \<not> testPassed (start ft sp)"
  by (auto simp: alive_def start_def Let_def split: fork_type.splits spawn.splits)

lemma waiting_onMessage: "waiting s \<Longrightarrow> waiting (onMessage ft rq m s)"
  by (cases m)
     (auto simp: waiting_def onMessage_def sendMessage_def pipeMessages_def
        split: fork_type.splits)

lemma flags_onMessage:
  "forkSucceeded (onMessage ft rq m s) = (forkSucceeded s \<or> m = Ready)"
  "testPassed (onMessage ft rq m s) = (testPassed s \<or> m = Done)"
  by (cases m; simp add: onMessage_def sendMessage_def)+

lemma run_messages:
  assumes "alive ft sp" and "\<forall>e \<in> set pre. is_msg e"
  shows "waiting (run ft rq sp pre) \<and>
         forkSucceeded (run ft rq sp pre) = (ChildMessage Ready \<in> set pre) \<and>
         testPassed (run ft rq sp pre) = (ChildMessage Done \<in> set pre)"
  using assms(2)
proof (induction pre rule: rev_induct)
  case Nil
  show ?case using assms(1) by (simp add: run_def waiting_start start_flags)
next
  case (snoc e pre)
  then obtain m where e: "e = ChildMessage m"
    by (cases e) (auto simp: is_msg_def)
  from snoc have IH: "waiting (run ft rq sp pre)"
      "forkSucceeded (run ft rq sp pre) = (ChildMessage Ready \<in> set pre)"
      "testPassed (run ft rq sp pre) = (ChildMessage Done \<in> set pre)"
    by simp_all
  have r: "run ft rq sp (pre @ [e]) = onMessage ft rq m (run ft rq sp pre)"
    by (simp add: run_def step_def e)
  show ?case
    unfolding r using IH by (auto simp: waiting_onMessage flags_onMessage e)
qed

lemma timeout_when_waiting:
  "waiting s \<Longrightarrow> promise (step ft rq s TimeoutElapsed) = Some (Rejected TimedOutError) \<and>
     stopped (child (step ft rq s TimeoutElapsed))"
  by (auto simp: waiting_def step_def timeoutCallback_def settle_def cleanup_def
        killProcess_def stopped_def Let_def split: fork_type.splits)

lemma exit_when_waiting:
  "waiting s \<Longrightarrow>
     promise (step ft rq s (ChildExit c)) =
       Some (if forkSucceeded s then Resolved (testPassed s \<and> c = Some 0)
             else Rejected ForkFailedError) \<and>
     stopped (child (step ft rq s (ChildExit c)))"
  by (cases c)
     (auto simp: waiting_def step_def exitListener_def onExit_def done_cb_def settle_def
        cleanup_def killProcess_def stopped_def Let_def split: fork_type.splits)

lemma run_append: "run ft rq sp (pre @ e # post) = foldl (step ft rq) (step ft rq (run ft rq sp pre) e) post"
  by (simp add: run_def)

lemma run_timeout:
  assumes "alive ft sp" and "\<forall>e \<in> set pre. is_msg e"
  shows "promise (run ft rq sp (pre @ TimeoutElapsed # post)) = Some (Rejected TimedOutError)"
    and "stopped (child (run ft rq sp (pre @ TimeoutElapsed # post)))"
  using run_messages[OF assms, of rq] timeout_when_waiting[of "run ft rq sp pre" ft rq]
  by (simp_all add: run_append promise_foldl_stable stopped_foldl_stable)

lemma run_exit:
  assumes "alive ft sp" and "\<forall>e \<in> set pre. is_msg e"
  shows "promise (run ft rq sp (pre @ ChildExit c # post)) =
           Some (if ChildMessage Ready \<in> set pre
                 then Resolved (ChildMessage Done \<in> set pre \<and> c = Some 0)
                 else Rejected ForkFailedError)"
    and "stopped (child (run ft rq sp (pre @ ChildExit c # post)))"
  using run_messages[OF assms, of rq] exit_when_waiting[of "run ft rq sp pre" ft rq c]
  by (simp_all add: run_append promise_foldl_stable stopped_foldl_stable)

lemma run_dead:
  "\<not> alive ft sp \<Longrightarrow> promise (run ft rq sp evs) = Some (Rejected ForkFailedError)"
proof -
  assume "\<not> alive ft sp"
  then obtain c where "ft = Node" "sp = SpawnDead c"
    by (cases ft; cases sp) (auto simp: alive_def)
  then have "promise (start ft sp) = Some (Rejected ForkFailedError)"
    by (cases c)
       (auto simp: start_def fresh_subprocess_def onExit_def done_cb_def settle_def
          cleanup_def Let_def)
  then show ?thesis by (simp add: run_def promise_foldl_stable)
qed

subsection \<open>Claims about the parent side\<close>

text \<open>
  C5. At every moment of a run (after any number \<open>k\<close> of the delivered events), the parent
  has sent a "test" message only if it has already received "loaded", an "exit" message
  only if it has already received "done", and a "start" message only if it has already
  received "ready".
\<close>

theorem sends_only_after_receipt:
  "(Test p g \<in> set (outbox (child (run ft rq sp (take k evs)))) \<longrightarrow>
      ChildMessage Loaded \<in> set (take k evs)) \<and>
   (Exit \<in> set (outbox (child (run ft rq sp (take k evs)))) \<longrightarrow>
      ChildMessage Done \<in> set (take k evs)) \<and>
   (Start p g \<in> set (outbox (child (run ft rq sp (take k evs)))) \<longrightarrow>
      ChildMessage Ready \<in> set (take k evs))"
proof -
  have sent: "m \<in> set (outbox (child (run ft rq sp (take k evs)))) \<Longrightarrow>
      \<exists>e \<in> set (take k evs). m \<in> set (reply rq e)" for m
    by (auto simp: outbox_run)
  have cases_reply: "set (reply rq e) \<subseteq>
      (if e = ChildMessage Loaded then {Test (bindingBinaryPath rq) (gpu rq)}
       else if e = ChildMessage Done then {Exit}
       else if e = ChildMessage Ready then {Start (bindingBinaryPath rq) (gpu rq)} else {})" for e
  proof (cases e)
    case (ChildMessage m)
    then show ?thesis by (cases m) (simp_all add: reply_def)
  qed (simp_all add: reply_def)
  have test: "Test p g \<in> set (reply rq e) \<Longrightarrow> e = ChildMessage Loaded" for e
    using cases_reply [of e] by (auto split: if_splits)
  have exit: "Exit \<in> set (reply rq e) \<Longrightarrow> e = ChildMessage Done" for e
    using cases_reply [of e] by (auto split: if_splits)
  have start: "Start p g \<in> set (reply rq e) \<Longrightarrow> e = ChildMessage Ready" for e
    using cases_reply [of e] by (auto split: if_splits)
  show ?thesis using sent test exit start by blast
qed

theorem sends_only_after_receipt_witness:
  "Test ''good.bin'' (GpuName ''vulkan'') \<in>
      set (outbox (child (run Node scenario_request SpawnAlive
        (take 2 [ChildMessage Ready, ChildMessage Loaded, ChildMessage Done])))) \<and>
   ChildMessage Loaded \<in> set (take 2 [ChildMessage Ready, ChildMessage Loaded, ChildMessage Done])"
proof -
  have "Test ''good.bin'' (GpuName ''vulkan'') \<in>
      set (outbox (child (run Node scenario_request SpawnAlive
        (take 2 [ChildMessage Ready, ChildMessage Loaded, ChildMessage Done]))))"
    by (simp add: outbox_run reply_def scenario_request_def)
  then show ?thesis
    using sends_only_after_receipt [of "''good.bin''" "GpuName ''vulkan''" Node scenario_request
        SpawnAlive 2 "[ChildMessage Ready, ChildMessage Loaded, ChildMessage Done]"]
    by blast
qed

text \<open>
  C6. When the base name of the module file does not start with "testBindingBinary", the
  call prints its warning and returns true, and no child process is forked.
\<close>

theorem not_independent_assumes_passed:
  "\<not> startsWith (detectedFileName h) expectedFileName \<Longrightarrow>
   testBindingBinary h rq sp evs =
     \<lparr>returned = Some (Resolved True), warned = True, forked = None\<rparr>"
  by (simp add: testBindingBinary_def)

theorem not_independent_assumes_passed_witness:
  "\<not> startsWith (detectedFileName (scenario_host\<lparr>detectedFileName := ''bundle.js''\<rparr>))
       expectedFileName \<and>
   testBindingBinary (scenario_host\<lparr>detectedFileName := ''bundle.js''\<rparr>) scenario_request
       SpawnAlive [TimeoutElapsed] =
     \<lparr>returned = Some (Resolved True), warned = True, forked = None\<rparr>"
proof -
  have h: "\<not> startsWith (detectedFileName (scenario_host\<lparr>detectedFileName := ''bundle.js''\<rparr>))
       expectedFileName"
    by (simp add: startsWith_def expectedFileName_def)
  show ?thesis
    using h not_independent_assumes_passed [OF h, of scenario_request SpawnAlive "[TimeoutElapsed]"]
    by simp
qed

lemma resolved_true_run:
  assumes "promise (run ft rq sp evs) = Some (Resolved True)"
  shows "(\<exists>pre post. evs = pre @ ChildExit (Some 0) # post \<and> (\<forall>e \<in> set pre. is_msg e) \<and>
            ChildMessage Ready \<in> set pre \<and> ChildMessage Done \<in> set pre) \<and>
         (length (filter is_exit evs) \<le> 1 \<longrightarrow> (\<forall>c. ChildExit c \<in> set evs \<longrightarrow> c = Some 0))"
proof -
  have al: "alive ft sp"
    using assms run_dead [of ft sp rq evs] by auto
  have "\<exists>e \<in> set evs. \<not> is_msg e"
  proof (rule ccontr)
    assume "\<not> (\<exists>e \<in> set evs. \<not> is_msg e)"
    then have "\<forall>e \<in> set evs. is_msg e" by blast
    from run_messages [OF al this, of rq] have "promise (run ft rq sp evs) = None"
      by (simp add: waiting_def)
    with assms show False by simp
  qed
  then obtain pre e post where
    evs: "evs = pre @ e # post" and e: "\<not> is_msg e" and pre: "\<forall>y \<in> set pre. is_msg y"
    using split_list_first_prop [of evs "\<lambda>e. \<not> is_msg e"] by auto
  have first: "e = ChildExit (Some 0) \<and> ChildMessage Ready \<in> set pre \<and> ChildMessage Done \<in> set pre"
  proof (cases e)
    case (ChildMessage m)
    with e show ?thesis by (simp add: is_msg_def)
  next
    case (ChildExit c)
    with assms evs run_exit(1) [OF al pre, of rq c post] show ?thesis
      by (auto split: if_splits)
  next
    case TimeoutElapsed
    with assms evs run_timeout(1) [OF al pre, of rq post] show ?thesis by simp
  qed
  have one: "(\<forall>c. ChildExit c \<in> set evs \<longrightarrow> c = Some 0)" if le: "length (filter is_exit evs) \<le> 1"
  proof -
    have "filter is_exit pre = []"
      using pre by (auto simp: filter_empty_conv is_msg_def is_exit_def split: event.splits)
    with le evs first have "filter is_exit post = []"
      by (simp add: is_exit_def)
    then have "\<forall>x \<in> set post. \<not> is_exit x" by (simp add: filter_empty_conv)
    moreover have "\<forall>x \<in> set pre. \<not> is_exit x"
      using pre by (auto simp: is_msg_def is_exit_def split: event.splits)
    ultimately show ?thesis using evs first by (auto simp: is_exit_def)
  qed
  show ?thesis using evs first pre one by blast
qed

lemma exit_settles:
  assumes "ChildExit c \<in> set evs"
  shows "promise (run ft rq sp evs) \<noteq> None"
proof (cases "alive ft sp")
  case False
  then show ?thesis by (simp add: run_dead)
next
  case True
  have "\<not> is_msg (ChildExit c)"
    by (simp add: is_msg_def)
  with assms have "\<exists>e \<in> set evs. \<not> is_msg e"
    by blast
  then obtain pre e post where
    evs: "evs = pre @ e # post" and e: "\<not> is_msg e" and pre: "\<forall>y \<in> set pre. is_msg y"
    using split_list_first_prop [of evs "\<lambda>e. \<not> is_msg e"] by auto
  show ?thesis
  proof (cases e)
    case (ChildMessage m)
    with e show ?thesis by (simp add: is_msg_def)
  next
    case (ChildExit c')
    with evs run_exit(1) [OF True pre, of rq c' post] show ?thesis by simp
  next
    case TimeoutElapsed
    with evs run_timeout(1) [OF True pre, of rq post] show ?thesis by simp
  qed
qed

text \<open>
  C4. The call resolves to true only if the events delivered to the parent consist of
  messages of the child, among them "ready" and "done", followed by an exit of the child
  with code 0. So an exit with code 0 before "done" does not give true, and neither does
  an exit with another code or by a signal. A child exits once: where the events hold at
  most one exit, every exit among them has code 0. Once the child has exited, the promise
  is settled.
\<close>

theorem passed_only_if_done_then_exit_zero:
  "(promise (run ft rq sp evs) = Some (Resolved True) \<longrightarrow>
      (\<exists>pre post. evs = pre @ ChildExit (Some 0) # post \<and> (\<forall>e \<in> set pre. is_msg e) \<and>
          ChildMessage Ready \<in> set pre \<and> ChildMessage Done \<in> set pre) \<and>
      (length (filter is_exit evs) \<le> 1 \<longrightarrow> (\<forall>c. ChildExit c \<in> set evs \<longrightarrow> c = Some 0))) \<and>
   ((\<exists>c. ChildExit c \<in> set evs) \<longrightarrow> promise (run ft rq sp evs) \<noteq> None)"
  using resolved_true_run [of ft rq sp evs] exit_settles [of _ evs ft rq sp] by blast

theorem passed_only_if_done_then_exit_zero_witness:
  "promise (run Node scenario_request SpawnAlive
      [ChildMessage Ready, ChildMessage Loaded, ChildMessage Done, ChildExit (Some 0)])
     = Some (Resolved True) \<and>
   (\<exists>pre post. [ChildMessage Ready, ChildMessage Loaded, ChildMessage Done, ChildExit (Some 0)]
        = pre @ ChildExit (Some 0) # post \<and> list_all is_msg pre \<and>
        ChildMessage Ready \<in> set pre \<and> ChildMessage Done \<in> set pre) \<and>
   promise (run Node scenario_request SpawnAlive
      [ChildMessage Ready, ChildMessage Loaded, ChildExit (Some 0), ChildMessage Done])
     = Some (Resolved False)"
proof -
  have h: "promise (run Node scenario_request SpawnAlive
      [ChildMessage Ready, ChildMessage Loaded, ChildMessage Done, ChildExit (Some 0)])
     = Some (Resolved True)"
    using run_exit(1) [of Node SpawnAlive "[ChildMessage Ready, ChildMessage Loaded, ChildMessage Done]"
        scenario_request "Some 0" "[]"]
    by (simp add: alive_def is_msg_def)
  have early: "promise (run Node scenario_request SpawnAlive
      [ChildMessage Ready, ChildMessage Loaded, ChildExit (Some 0), ChildMessage Done])
     = Some (Resolved False)"
    using run_exit(1) [of Node SpawnAlive "[ChildMessage Ready, ChildMessage Loaded]"
        scenario_request "Some 0" "[ChildMessage Done]"]
    by (simp add: alive_def is_msg_def)
  show ?thesis
    using h early
      passed_only_if_done_then_exit_zero [of Node scenario_request SpawnAlive
        "[ChildMessage Ready, ChildMessage Loaded, ChildMessage Done, ChildExit (Some 0)]"]
    by (auto simp: list_all_iff)
qed

text \<open>
  C3, as the code has it. With the module file independent and no single executable
  application detected, a child exit after "ready" resolves the call to a boolean, but
  the expiry of the timer before the child's exit rejects the call with the time-out
  error, and a child exit before "ready" rejects it with the error of a failed fork. When
  the timer expires first, the child has been killed.
\<close>

theorem timeout_rejects_and_kills:
  assumes "startsWith (detectedFileName h) expectedFileName" and "\<not> seaDetected h"
    and "alive (getForkFunction h) sp" and "\<forall>e \<in> set pre. is_msg e"
  shows "returned (testBindingBinary h rq sp (pre @ TimeoutElapsed # post)) =
           Some (Rejected TimedOutError) \<and>
         (\<exists>s. forked (testBindingBinary h rq sp (pre @ TimeoutElapsed # post)) = Some s \<and>
              stopped (child s)) \<and>
         returned (testBindingBinary h rq sp (pre @ ChildExit c # post)) =
           Some (if ChildMessage Ready \<in> set pre
                 then Resolved (ChildMessage Done \<in> set pre \<and> c = Some 0)
                 else Rejected ForkFailedError)"
  using assms(1,2) run_timeout [OF assms(3,4), of rq post] run_exit(1) [OF assms(3,4), of rq c post]
  by (simp add: testBindingBinary_def Let_def)

theorem timeout_rejects_and_kills_witness:
  "returned (testBindingBinary scenario_host scenario_request SpawnAlive ([] @ TimeoutElapsed # [])) =
           Some (Rejected TimedOutError) \<and>
   (\<exists>s. forked (testBindingBinary scenario_host scenario_request SpawnAlive
              ([] @ TimeoutElapsed # [])) = Some s \<and> stopped (child s)) \<and>
   returned (testBindingBinary scenario_host scenario_request SpawnAlive
              ([] @ ChildExit (Some 1) # [])) = Some (Rejected ForkFailedError)"
  using timeout_rejects_and_kills [of scenario_host SpawnAlive "[]" scenario_request "[]" "Some 1"]
  by (simp add: scenario_host_def startsWith_def expectedFileName_def seaDetected_def
        getForkFunction_def alive_def)

theorem timeout_throws_counterexample:
  "returned (testBindingBinary scenario_host scenario_request SpawnAlive [TimeoutElapsed]) =
     Some (Rejected TimedOutError)"
proof -
  have "promise (run Node scenario_request SpawnAlive ([] @ TimeoutElapsed # [])) =
      Some (Rejected TimedOutError)"
    by (rule run_timeout(1)) (simp_all add: alive_def)
  then show ?thesis
    by (simp add: testBindingBinary_def scenario_host_def startsWith_def expectedFileName_def
          seaDetected_def getForkFunction_def Let_def)
qed

section \<open>Properties of the child side\<close>

lemma fst_call:
  "fst (call c f a) = (case snd a of Inl e \<Rightarrow> fst a | Inr n \<Rightarrow> fst a @ [c])"
  by (simp add: call_def split: sum.splits)

lemma call_Inl [simp]: "call c f (cs, Inl e) = (cs, Inl e)"
  by (simp add: call_def)

lemma call_Inr [simp]:
  "call c f (cs, Inr n) = (cs @ [c], case f n of None \<Rightarrow> Inl (Threw c) | Some n' \<Rightarrow> Inr n')"
  by (simp add: call_def)

text \<open>The calls of the test after the first report of the backend.\<close>

lemma bindingTest_calls:
  assumes "loadBackends b None n = Some n1" and "getGpuType b n1 = Some loadedGpu"
  shows "\<exists>rest. (\<forall>d. LoadBackends (Some d) \<notin> set rest) \<and>
           fst (bindingTest dir g b n) =
             [LoadBackends None, GetGpuType] @
             (if loadedGpu = None \<or> (loadedGpu = Some GpuFalse \<and> g \<noteq> GpuFalse)
              then [LoadBackends (Some dir)] else []) @ rest"
  using assms
  by (auto simp: bindingTest_def split: option.splits sum.splits prod.splits if_splits)

lemma bindingTest_unfold:
  assumes "loadBackends b None n = Some n1" and "getGpuType b n1 = Some loadedGpu"
  shows "bindingTest dir g b n =
     (case call GetGpuDeviceInfo (getGpuDeviceInfo b)
            (call GetGpuVramInfo (getGpuVramInfo b)
              (call Init (init b)
                (if loadedGpu = None \<or> (loadedGpu = Some GpuFalse \<and> g \<noteq> GpuFalse)
                 then call (LoadBackends (Some dir)) (loadBackends b (Some dir))
                        ([LoadBackends None, GetGpuType], Inr n1)
                 else ([LoadBackends None, GetGpuType], Inr n1)))) of
        (cs', Inl e) \<Rightarrow> (cs', Inl e)
      | (cs', Inr n2) \<Rightarrow>
          (case getGpuType b n2 of
             None \<Rightarrow> (cs' @ [GetGpuType], Inl (Threw GetGpuType))
           | Some gpuType \<Rightarrow>
               (if gpuType \<noteq> Some g then (cs' @ [GetGpuType], Inl GpuTypeMismatch)
                else call EnsureGpuDeviceIsSupported (ensureGpuDeviceIsSupported b)
                       (cs' @ [GetGpuType], Inr n2))))"
  using assms by (simp add: bindingTest_def)

lemma reprobe_state:
  assumes "(if c then loadBackends b (Some dir) n1 else Some n1) = Some m"
  shows "(if c then call (LoadBackends (Some dir)) (loadBackends b (Some dir)) (cs, Inr n1)
          else (cs, Inr n1)) = (cs @ (if c then [LoadBackends (Some dir)] else []), Inr m)"
  using assms by (auto split: if_splits)

lemma bindingTest_done:
  assumes "loadBackends b None n = Some n1" and "getGpuType b n1 = Some loadedGpu"
    and "(if loadedGpu = None \<or> (loadedGpu = Some GpuFalse \<and> g \<noteq> GpuFalse)
          then loadBackends b (Some dir) n1 else Some n1) = Some m"
    and "init b m = Some n2" and "getGpuVramInfo b n2 = Some n3"
    and "getGpuDeviceInfo b n3 = Some n4" and "getGpuType b n4 = Some t"
  shows "bindingTest dir g b n =
     (if t \<noteq> Some g
      then ([LoadBackends None, GetGpuType] @
            (if loadedGpu = None \<or> (loadedGpu = Some GpuFalse \<and> g \<noteq> GpuFalse)
             then [LoadBackends (Some dir)] else []) @
            [Init, GetGpuVramInfo, GetGpuDeviceInfo, GetGpuType], Inl GpuTypeMismatch)
      else call EnsureGpuDeviceIsSupported (ensureGpuDeviceIsSupported b)
             ([LoadBackends None, GetGpuType] @
              (if loadedGpu = None \<or> (loadedGpu = Some GpuFalse \<and> g \<noteq> GpuFalse)
               then [LoadBackends (Some dir)] else []) @
              [Init, GetGpuVramInfo, GetGpuDeviceInfo, GetGpuType], Inr n4))"
  unfolding bindingTest_unfold [OF assms(1,2)] reprobe_state [OF assms(3)]
  using assms(4-7) by simp

lemma bindingTest_reprobe_throws:
  assumes "loadBackends b None n = Some n1" and "getGpuType b n1 = Some loadedGpu"
    and "loadedGpu = None \<or> (loadedGpu = Some GpuFalse \<and> g \<noteq> GpuFalse)"
    and "loadBackends b (Some dir) n1 = None"
  shows "bindingTest dir g b n =
     ([LoadBackends None, GetGpuType, LoadBackends (Some dir)],
      Inl (Threw (LoadBackends (Some dir))))"
  unfolding bindingTest_unfold [OF assms(1,2)] using assms(3,4) by simp

lemma bindingTest_init_throws:
  assumes "loadBackends b None n = Some n1" and "getGpuType b n1 = Some loadedGpu"
    and "(if loadedGpu = None \<or> (loadedGpu = Some GpuFalse \<and> g \<noteq> GpuFalse)
          then loadBackends b (Some dir) n1 else Some n1) = Some m"
    and "init b m = None"
  shows "snd (bindingTest dir g b n) = Inl (Threw Init)"
  unfolding bindingTest_unfold [OF assms(1,2)] reprobe_state [OF assms(3)]
  using assms(4) by simp

text \<open>
  C7. In the "test" handler, when the binding is loaded and the first
  \<^verbatim>\<open>loadBackends()\<close> and \<^verbatim>\<open>getGpuType()\<close> return, \<^verbatim>\<open>loadBackends\<close> is called with a
  directory exactly when the reported backend is \<^verbatim>\<open>undefined\<close>/\<^verbatim>\<open>null\<close>, or is
  \<^verbatim>\<open>false\<close> while the expected backend of the message is not \<^verbatim>\<open>false\<close>; the directory
  is then that of the resolved binary path. The call is carried out on the binding: when
  it throws, the process ends with exit code 1, and otherwise \<^verbatim>\<open>init\<close> and the rest of
  the test work on the state it leaves. When the condition does not hold, they work on the
  state left by the first \<^verbatim>\<open>loadBackends()\<close>.
\<close>

theorem reprobe_exactly_when_backend_missing:
  assumes "loadBackends b None n = Some n1" and "getGpuType b n1 = Some loadedGpu"
  shows
    "((LoadBackends (Some d) \<in> set (calls (childOnMessage env (Test p g) (Some (b, n))))) =
        (d = binaryDirectory env p \<and>
         (loadedGpu = None \<or> (loadedGpu = Some GpuFalse \<and> g \<noteq> GpuFalse)))) \<and>
     ((loadedGpu = None \<or> (loadedGpu = Some GpuFalse \<and> g \<noteq> GpuFalse)) \<and>
      loadBackends b (Some (binaryDirectory env p)) n1 = None \<longrightarrow>
        actions (childOnMessage env (Test p g) (Some (b, n))) = [ProcessExit 1] \<and>
        failure (childOnMessage env (Test p g) (Some (b, n))) =
          Some (Threw (LoadBackends (Some (binaryDirectory env p))))) \<and>
     ((if loadedGpu = None \<or> (loadedGpu = Some GpuFalse \<and> g \<noteq> GpuFalse)
       then loadBackends b (Some (binaryDirectory env p)) n1 else Some n1) = Some m \<and>
      init b m = None \<longrightarrow>
        actions (childOnMessage env (Test p g) (Some (b, n))) = [ProcessExit 1] \<and>
        failure (childOnMessage env (Test p g) (Some (b, n))) = Some (Threw Init)) \<and>
     ((if loadedGpu = None \<or> (loadedGpu = Some GpuFalse \<and> g \<noteq> GpuFalse)
       then loadBackends b (Some (binaryDirectory env p)) n1 else Some n1) = Some m \<and>
      init b m = Some n2 \<and> getGpuVramInfo b n2 = Some n3 \<and> getGpuDeviceInfo b n3 = Some n4 \<and>
      getGpuType b n4 = Some (Some g) \<and> ensureGpuDeviceIsSupported b n4 = Some n5 \<longrightarrow>
        childOnMessage env (Test p g) (Some (b, n)) =
          \<lparr>binding = Some (b, n5),
           calls = [LoadBackends None, GetGpuType] @
                   (if loadedGpu = None \<or> (loadedGpu = Some GpuFalse \<and> g \<noteq> GpuFalse)
                    then [LoadBackends (Some (binaryDirectory env p))] else []) @
                   [Init, GetGpuVramInfo, GetGpuDeviceInfo, GetGpuType,
                    EnsureGpuDeviceIsSupported],
           actions = [Send Done], failure = None\<rparr>)"
proof -
  let ?dir = "binaryDirectory env p"
  let ?c = "loadedGpu = None \<or> (loadedGpu = Some GpuFalse \<and> g \<noteq> GpuFalse)"
  let ?R = "childOnMessage env (Test p g) (Some (b, n))"
  obtain rest where rest: "\<forall>d. LoadBackends (Some d) \<notin> set rest"
    and fst: "fst (bindingTest ?dir g b n) =
             [LoadBackends None, GetGpuType] @ (if ?c then [LoadBackends (Some ?dir)] else []) @ rest"
    using bindingTest_calls [OF assms] by blast
  have "calls ?R = fst (bindingTest ?dir g b n)"
    by (simp add: childOnMessage_def split: prod.splits sum.splits)
  then have A: "(LoadBackends (Some d) \<in> set (calls ?R)) = (d = ?dir \<and> ?c)"
    using rest fst by auto
  have B: "actions ?R = [ProcessExit 1] \<and> failure ?R = Some (Threw (LoadBackends (Some ?dir)))"
    if "?c" and "loadBackends b (Some ?dir) n1 = None"
    using bindingTest_reprobe_throws [OF assms that] by (simp add: childOnMessage_def)
  have C: "actions ?R = [ProcessExit 1] \<and> failure ?R = Some (Threw Init)"
    if "(if ?c then loadBackends b (Some ?dir) n1 else Some n1) = Some m" and "init b m = None"
    using bindingTest_init_throws [OF assms that]
    by (cases "bindingTest ?dir g b n") (simp add: childOnMessage_def)
  have D: "?R = \<lparr>binding = Some (b, n5),
           calls = [LoadBackends None, GetGpuType] @
                   (if ?c then [LoadBackends (Some ?dir)] else []) @
                   [Init, GetGpuVramInfo, GetGpuDeviceInfo, GetGpuType,
                    EnsureGpuDeviceIsSupported],
           actions = [Send Done], failure = None\<rparr>"
    if "(if ?c then loadBackends b (Some ?dir) n1 else Some n1) = Some m"
      and "init b m = Some n2" and "getGpuVramInfo b n2 = Some n3"
      and "getGpuDeviceInfo b n3 = Some n4" and "getGpuType b n4 = Some (Some g)"
      and "ensureGpuDeviceIsSupported b n4 = Some n5"
    using bindingTest_done [OF assms that(1-5)] that(6) by (simp add: childOnMessage_def)
  show ?thesis using A B C D by blast
qed

theorem reprobe_exactly_when_backend_missing_witness:
  "childOnMessage sidecar_child_env (Test ''good.bin'' (GpuName ''cuda''))
       (Some (sidecar_binding, False)) =
     \<lparr>binding = Some (sidecar_binding, True),
      calls = [LoadBackends None, GetGpuType, LoadBackends (Some ''/opt/bins''), Init,
               GetGpuVramInfo, GetGpuDeviceInfo, GetGpuType, EnsureGpuDeviceIsSupported],
      actions = [Send Done], failure = None\<rparr> \<and>
   LoadBackends (Some ''/opt/bins'') \<in>
     set (calls (childOnMessage (scenario_child_env None) (Test ''good.bin'' GpuFalse)
            (Some (reporting_binding None, ())))) \<and>
   LoadBackends (Some ''/opt/bins'') \<notin>
     set (calls (childOnMessage (scenario_child_env (Some GpuFalse)) (Test ''good.bin'' GpuFalse)
            (Some (reporting_binding (Some GpuFalse), ())))) \<and>
   LoadBackends (Some ''/opt/bins'') \<in>
     set (calls (childOnMessage (scenario_child_env (Some GpuFalse))
            (Test ''good.bin'' (GpuName ''cuda'')) (Some (reporting_binding (Some GpuFalse), ()))))"
  using reprobe_exactly_when_backend_missing [of sidecar_binding False False None
      "''/opt/bins''" sidecar_child_env "''good.bin''" "GpuName ''cuda''" True True True True True]
    reprobe_exactly_when_backend_missing [of "reporting_binding None" "()" "()" None
      "''/opt/bins''" "scenario_child_env None" "''good.bin''" GpuFalse]
    reprobe_exactly_when_backend_missing [of "reporting_binding (Some GpuFalse)" "()" "()"
      "Some GpuFalse" "''/opt/bins''" "scenario_child_env (Some GpuFalse)" "''good.bin''" GpuFalse]
    reprobe_exactly_when_backend_missing [of "reporting_binding (Some GpuFalse)" "()" "()"
      "Some GpuFalse" "''/opt/bins''" "scenario_child_env (Some GpuFalse)" "''good.bin''"
      "GpuName ''cuda''"]
  by (simp add: reporting_binding_def scenario_child_env_def sidecar_binding_def
        sidecar_child_env_def)

text \<open>
  C2, as the code has it. When the binding is loaded, the calls up to the second
  \<^verbatim>\<open>getGpuType()\<close> succeed (among them \<^verbatim>\<open>init\<close>), and the backend then reported differs
  from the expected one of the message, the child ends its process with exit code 1
  without calling \<^verbatim>\<open>ensureGpuDeviceIsSupported\<close> and without sending "done"; the parent,
  having received "ready", resolves false when it is delivered this exit, as it does for
  every exit with a code other than 0.
\<close>

theorem mismatch_exits_with_code_one:
  assumes "loadBackends b None n = Some n1" and "getGpuType b n1 = Some loadedGpu"
    and "(if loadedGpu = None \<or> (loadedGpu = Some GpuFalse \<and> g \<noteq> GpuFalse)
          then loadBackends b (Some (binaryDirectory env p)) n1 else Some n1) = Some m"
    and "init b m = Some n2" and "getGpuVramInfo b n2 = Some n3"
    and "getGpuDeviceInfo b n3 = Some n4" and "getGpuType b n4 = Some reported"
    and "reported \<noteq> Some g"
    and "alive ft sp" and "\<forall>e \<in> set pre. is_msg e" and "ChildMessage Ready \<in> set pre"
  shows "childOnMessage env (Test p g) (Some (b, n)) =
           \<lparr>binding = Some (b, n),
            calls = [LoadBackends None, GetGpuType] @
                    (if loadedGpu = None \<or> (loadedGpu = Some GpuFalse \<and> g \<noteq> GpuFalse)
                     then [LoadBackends (Some (binaryDirectory env p))] else []) @
                    [Init, GetGpuVramInfo, GetGpuDeviceInfo, GetGpuType],
            actions = [ProcessExit 1], failure = Some GpuTypeMismatch\<rparr> \<and>
         promise (run ft rq sp
                    (pre @ delivered (actions (childOnMessage env (Test p g) (Some (b, n)))) @ post))
           = Some (Resolved False)"
proof -
  have R: "childOnMessage env (Test p g) (Some (b, n)) =
           \<lparr>binding = Some (b, n),
            calls = [LoadBackends None, GetGpuType] @
                    (if loadedGpu = None \<or> (loadedGpu = Some GpuFalse \<and> g \<noteq> GpuFalse)
                     then [LoadBackends (Some (binaryDirectory env p))] else []) @
                    [Init, GetGpuVramInfo, GetGpuDeviceInfo, GetGpuType],
            actions = [ProcessExit 1], failure = Some GpuTypeMismatch\<rparr>"
    using bindingTest_done [OF assms(1-7)] assms(8) by (simp add: childOnMessage_def)
  have "promise (run ft rq sp (pre @ ChildExit (Some 1) # post)) = Some (Resolved False)"
    using run_exit(1) [OF assms(9,10), of rq "Some 1" post] assms(11) by simp
  then show ?thesis unfolding R by (simp add: delivered_def)
qed

lemma reporting_binding_sel:
  "loadBackends (reporting_binding t) d n = Some n"
  "getGpuType (reporting_binding t) n = Some t"
  "init (reporting_binding t) n = Some n"
  "getGpuVramInfo (reporting_binding t) n = Some n"
  "getGpuDeviceInfo (reporting_binding t) n = Some n"
  "ensureGpuDeviceIsSupported (reporting_binding t) n = Some n"
  "binaryDirectory (scenario_child_env t) p = ''/opt/bins''"
  by (simp_all add: reporting_binding_def scenario_child_env_def)

theorem mismatch_exits_with_code_one_witness:
  "actions (childOnMessage (scenario_child_env (Some (GpuName ''vulkan'')))
       (Test ''good.bin'' (GpuName ''cuda''))
       (Some (reporting_binding (Some (GpuName ''vulkan'')), ()))) = [ProcessExit 1] \<and>
   promise (run Node (scenario_request\<lparr>gpu := GpuName ''cuda''\<rparr>) SpawnAlive
       ([ChildMessage Ready, ChildMessage Loaded] @
        delivered (actions (childOnMessage (scenario_child_env (Some (GpuName ''vulkan'')))
           (Test ''good.bin'' (GpuName ''cuda''))
           (Some (reporting_binding (Some (GpuName ''vulkan'')), ())))) @ []))
     = Some (Resolved False) \<and>
   actions (childOnMessage (scenario_child_env (Some (GpuName ''cuda'')))
       (Test ''good.bin'' (GpuName ''vulkan''))
       (Some (reporting_binding (Some (GpuName ''cuda'')), ()))) = [ProcessExit 1] \<and>
   actions (childOnMessage (scenario_child_env (Some GpuFalse))
       (Test ''good.bin'' (GpuName ''vulkan''))
       (Some (reporting_binding (Some GpuFalse), ()))) = [ProcessExit 1]"
  using mismatch_exits_with_code_one [of "reporting_binding (Some (GpuName ''vulkan''))" "()" "()"
      "Some (GpuName ''vulkan'')" "GpuName ''cuda''" "scenario_child_env (Some (GpuName ''vulkan''))"
      "''good.bin''" "()" "()" "()" "()" "Some (GpuName ''vulkan'')" Node SpawnAlive
      "[ChildMessage Ready, ChildMessage Loaded]" "scenario_request\<lparr>gpu := GpuName ''cuda''\<rparr>" "[]"]
    mismatch_exits_with_code_one [of "reporting_binding (Some (GpuName ''cuda''))" "()" "()"
      "Some (GpuName ''cuda'')" "GpuName ''vulkan''" "scenario_child_env (Some (GpuName ''cuda''))"
      "''good.bin''" "()" "()" "()" "()" "Some (GpuName ''cuda'')" Node SpawnAlive
      "[ChildMessage Ready, ChildMessage Loaded]" scenario_request "[]"]
    mismatch_exits_with_code_one [of "reporting_binding (Some GpuFalse)" "()" "()"
      "Some GpuFalse" "GpuName ''vulkan''" "scenario_child_env (Some GpuFalse)"
      "''good.bin''" "()" "()" "()" "()" "Some GpuFalse" Node SpawnAlive
      "[ChildMessage Ready, ChildMessage Loaded]" scenario_request "[]"]
  by (simp add: reporting_binding_sel alive_def is_msg_def) (elim conjE, simp)

theorem mismatch_not_clean_exit_counterexample:
  "actions (childOnMessage (scenario_child_env (Some (GpuName ''vulkan'')))
       (Test ''good.bin'' (GpuName ''cuda''))
       (Some (reporting_binding (Some (GpuName ''vulkan'')), ()))) = [ProcessExit 1] \<and>
   promise (run Node (scenario_request\<lparr>gpu := GpuName ''cuda''\<rparr>) SpawnAlive
       [ChildMessage Ready, ChildMessage Loaded, ChildExit (Some 1)]) = Some (Resolved False) \<and>
   promise (run Node (scenario_request\<lparr>gpu := GpuName ''cuda''\<rparr>) SpawnAlive
       [ChildMessage Ready, ChildMessage Loaded, ChildExit (Some 137)]) = Some (Resolved False)"
proof -
  have "promise (run Node (scenario_request\<lparr>gpu := GpuName ''cuda''\<rparr>) SpawnAlive
      ([ChildMessage Ready, ChildMessage Loaded] @ ChildExit (Some c) # [])) =
      Some (Resolved (c = 0 \<and> False))" for c
    using run_exit(1) [of Node SpawnAlive "[ChildMessage Ready, ChildMessage Loaded]"
        "scenario_request\<lparr>gpu := GpuName ''cuda''\<rparr>" "Some c" "[]"]
    by (simp add: alive_def is_msg_def)
  then show ?thesis
    by (simp add: childOnMessage_def bindingTest_def reporting_binding_def scenario_child_env_def)
qed

section \<open>Properties of the detector\<close>

subsection \<open>What each probe reads\<close>

lemma hasFileInPath_execAsync [simp]:
  "hasFileInPath (sys\<lparr>execAsync := e\<rparr>) f dirs = hasFileInPath sys f dirs"
  by (simp add: hasFileInPath_def)

lemma hasFileInPath_readdir [simp]:
  "hasFileInPath (sys\<lparr>readdir := r\<rparr>) f dirs = hasFileInPath sys f dirs"
  by (simp add: hasFileInPath_def)

lemma getWindir_update [simp]:
  "getWindir (sys\<lparr>execAsync := e\<rparr>) = getWindir sys"
  "getWindir (sys\<lparr>readdir := r\<rparr>) = getWindir sys"
  by (simp_all add: getWindir_def envNonEmpty_def)

lemma compareFolders_execAsync [simp]:
  "compareFolders (sys\<lparr>execAsync := e\<rparr>) k = compareFolders sys k"
  by (intro ext) (simp add: compareFolders_def)

lemma rankedFolderNames_execAsync [simp]:
  "rankedFolderNames (sys\<lparr>execAsync := e\<rparr>) pre names = rankedFolderNames sys pre names"
  by (simp add: rankedFolderNames_def)

lemma listing_execAsync [simp]: "listing (sys\<lparr>execAsync := e\<rparr>) dir = listing sys dir"
  by (simp add: listing_def)

lemma installationsIn_execAsync [simp]:
  "installationsIn (sys\<lparr>execAsync := e\<rparr>) cs = installationsIn sys cs"
  by (induction cs) (simp_all split: option.splits)

lemma withCudaPath_execAsync [simp]:
  "withCudaPath (sys\<lparr>execAsync := e\<rparr>) fs = withCudaPath sys fs"
  by (simp add: withCudaPath_def envNonEmpty_def)

lemma getWindowsProgramFilesPaths_execAsync [simp]:
  "getWindowsProgramFilesPaths (sys\<lparr>execAsync := e\<rparr>) = getWindowsProgramFilesPaths sys"
  by (simp add: getWindowsProgramFilesPaths_def systemDrive_def)

lemma getCudaInstallationPaths_execAsync [simp]:
  "getCudaInstallationPaths (sys\<lparr>execAsync := e\<rparr>) p = getCudaInstallationPaths sys p"
  by (cases p) (simp_all add: getCudaInstallationPaths_def split: option.splits)

lemma linuxLibraryPathsFrom_execAsync [simp]:
  "linuxLibraryPathsFrom (sys\<lparr>execAsync := e\<rparr>) res ps = linuxLibraryPathsFrom sys res ps"
  by (induction ps arbitrary: res) (simp_all split: option.splits)

lemma cudaLibrarySearchPaths_execAsync [simp]:
  "cudaLibrarySearchPaths (sys\<lparr>execAsync := e\<rparr>) p = cudaLibrarySearchPaths sys p"
  by (cases p) (simp_all add: cudaLibrarySearchPaths_def getLinuxCudaLibraryPaths_def)


lemma termuxLibraryPath_update [simp]:
  "termuxLibraryPath (sys\<lparr>execAsync := e\<rparr>) = termuxLibraryPath sys"
  "termuxLibraryPath (sys\<lparr>readdir := r\<rparr>) = termuxLibraryPath sys"
  by (simp_all add: termuxLibraryPath_def)




subsection \<open>Without library files\<close>









subsection \<open>The ranking of folder names in general\<close>

lemma set_insort_by [simp]: "set (insort_by cmp x ys) = insert x (set ys)"
  by (induction ys) auto

lemma set_sort_by [simp]: "set (sort_by cmp xs) = set xs"
  by (induction xs) (simp_all add: sort_by_def)

lemma sort_by_Cons: "sort_by cmp (x # xs) = insort_by cmp x (sort_by cmp xs)"
  by (simp add: sort_by_def)

lemma insort_by_front:
  "(ws = [] \<or> cmp x (hd ws) \<le> 0) \<Longrightarrow> insort_by cmp x ws = x # ws"
  by (cases ws) auto

lemma insort_by_before:
  "(ws = [] \<or> cmp x (hd ws) \<le> 0) \<Longrightarrow> insort_by cmp x (vs @ ws) = insort_by cmp x vs @ ws"
  by (induction vs) (simp_all add: insort_by_front)

lemma insort_by_after:
  "\<forall>v \<in> set vs. 0 < cmp x v \<Longrightarrow> insort_by cmp x vs = vs @ [x]"
  by (induction vs) auto

lemma compareFolders_cases:
  "parsable sys pre a \<Longrightarrow> \<not> parsable sys pre b \<Longrightarrow> compareFolders sys (length pre) a b = - 1"
  "\<not> parsable sys pre a \<Longrightarrow> parsable sys pre b \<Longrightarrow> compareFolders sys (length pre) a b = 1"
  "\<not> parsable sys pre a \<Longrightarrow> \<not> parsable sys pre b \<Longrightarrow> compareFolders sys (length pre) a b = 0"
  by (cases "semverValidCoerce sys (drop (length pre) a)";
      cases "semverValidCoerce sys (drop (length pre) b)";
      simp add: parsable_def compareFolders_def)+

lemma sort_by_parsable_first:
  "sort_by (compareFolders sys (length pre)) xs =
     sort_by (compareFolders sys (length pre)) (filter (parsable sys pre) xs) @
     filter (\<lambda>name. \<not> parsable sys pre name) xs"
proof (induction xs)
  case Nil
  show ?case by (simp add: sort_by_def)
next
  case (Cons x xs)
  let ?cmp = "compareFolders sys (length pre)"
  let ?V = "sort_by ?cmp (filter (parsable sys pre) xs)"
  let ?I = "filter (\<lambda>name. \<not> parsable sys pre name) xs"
  have V: "\<forall>v \<in> set ?V. parsable sys pre v" by simp
  have I: "?I \<noteq> [] \<Longrightarrow> \<not> parsable sys pre (hd ?I)"
    using hd_in_set [of ?I] by auto
  show ?case
  proof (cases "parsable sys pre x")
    case True
    have "?I = [] \<or> ?cmp x (hd ?I) \<le> 0"
    proof (cases "?I = []")
      case False
      then have "?cmp x (hd ?I) = - 1"
        using I True by (intro compareFolders_cases(1))
      then show ?thesis by simp
    qed simp
    then have "insort_by ?cmp x (?V @ ?I) = insort_by ?cmp x ?V @ ?I"
      by (rule insort_by_before)
    with True Cons show ?thesis by (simp add: sort_by_Cons)
  next
    case False
    have "?I = [] \<or> ?cmp x (hd ?I) \<le> 0"
    proof (cases "?I = []")
      case F: False
      then have "?cmp x (hd ?I) = 0"
        using I False by (intro compareFolders_cases(3))
      then show ?thesis by simp
    qed simp
    then have "insort_by ?cmp x (?V @ ?I) = insort_by ?cmp x ?V @ ?I"
      by (rule insort_by_before)
    moreover have "insort_by ?cmp x ?V = ?V @ [x]"
      using V False by (intro insort_by_after) (auto simp: compareFolders_cases)
    ultimately show ?thesis using False Cons by (simp add: sort_by_Cons)
  qed
qed

text \<open>
  What the ranking does with any listing: the names that cannot be read as a version
  come first, in the reverse of the order of the listing, and the readable ones follow.
\<close>

lemma rankedFolderNames_unparsable_first:
  "rankedFolderNames sys pre names =
     rev (filter (\<lambda>name. \<not> parsable sys pre name)
            (filter (\<lambda>name. startsWith (toLowerCase name) pre) names)) @
     rev (sort_by (compareFolders sys (length pre))
            (filter (parsable sys pre) (filter (\<lambda>name. startsWith (toLowerCase name) pre) names)))"
  unfolding rankedFolderNames_def
  by (subst sort_by_parsable_first) simp

lemma semver_compare_le:
  "(semver_compare (a1, a2, a3) (b1, b2, b3) \<le> 0) =
     (a1 < b1 \<or> (a1 = b1 \<and> (a2 < b2 \<or> (a2 = b2 \<and> a3 \<le> b3))))"
  by (auto simp: semver_compare_def compareIdentifiers_def)

lemma compareFolders_le:
  "(compareFolders sys k a b \<le> 0) =
     (case (semverValidCoerce sys (drop k a), semverValidCoerce sys (drop k b)) of
        (Some (a1, a2, a3), Some (b1, b2, b3)) \<Rightarrow>
          a1 < b1 \<or> (a1 = b1 \<and> (a2 < b2 \<or> (a2 = b2 \<and> a3 \<le> b3)))
      | (Some v, None) \<Rightarrow> True
      | (None, Some w) \<Rightarrow> False
      | (None, None) \<Rightarrow> True)"
  by (auto simp: compareFolders_def semver_compare_le split: option.splits)

lemma compareFolders_total:
  "compareFolders sys k a b \<le> 0 \<or> compareFolders sys k b a \<le> 0"
  unfolding compareFolders_le by (auto split: option.splits)

lemma compareFolders_trans:
  "compareFolders sys k a b \<le> 0 \<Longrightarrow> compareFolders sys k b c \<le> 0 \<Longrightarrow>
   compareFolders sys k a c \<le> 0"
  unfolding compareFolders_le by (auto split: option.splits)

lemma sorted_insort_by:
  assumes total: "\<And>a b. cmp a b \<le> 0 \<or> cmp b a \<le> 0"
    and trans: "\<And>a b c. cmp a b \<le> 0 \<Longrightarrow> cmp b c \<le> 0 \<Longrightarrow> cmp a c \<le> 0"
  shows "sorted_wrt (\<lambda>a b. cmp a b \<le> 0) ys \<Longrightarrow>
         sorted_wrt (\<lambda>a b. cmp a b \<le> 0) (insort_by cmp x ys)"
proof (induction ys)
  case Nil
  show ?case by simp
next
  case (Cons y ys)
  show ?case
  proof (cases "cmp x y \<le> 0")
    case True
    with Cons.prems show ?thesis by (auto intro: trans)
  next
    case False
    with total [of x y] have "cmp y x \<le> 0" by simp
    with False Cons show ?thesis by auto
  qed
qed

lemma sorted_sort_by:
  assumes "\<And>a b. cmp a b \<le> 0 \<or> cmp b a \<le> 0"
    and "\<And>a b c. cmp a b \<le> 0 \<Longrightarrow> cmp b c \<le> 0 \<Longrightarrow> cmp a c \<le> 0"
  shows "sorted_wrt (\<lambda>a b. cmp a b \<le> 0) (sort_by cmp xs)"
  by (induction xs) (simp_all add: sort_by_Cons sorted_insort_by [OF assms], simp add: sort_by_def)

text \<open>The ranking is in descending order of the comparison function.\<close>

lemma rankedFolderNames_descending:
  "sorted_wrt (\<lambda>a b. compareFolders sys (length pre) b a \<le> 0) (rankedFolderNames sys pre names)"
  unfolding rankedFolderNames_def sorted_wrt_rev
proof (rule sorted_sort_by)
  show "compareFolders sys (length pre) a b \<le> 0 \<or> compareFolders sys (length pre) b a \<le> 0"
    for a b
    by (rule compareFolders_total)
  show "compareFolders sys (length pre) a b \<le> 0 \<Longrightarrow> compareFolders sys (length pre) b c \<le> 0 \<Longrightarrow>
        compareFolders sys (length pre) a c \<le> 0" for a b c
    by (rule compareFolders_trans)
qed

subsection \<open>Claims about the detector\<close>

text \<open>
  C1, at the folder names of the spec's example. The names \<^verbatim>\<open>cuda-9\<close>, \<^verbatim>\<open>cuda-10\<close>,
  \<^verbatim>\<open>cuda-bogus\<close> found in \<^verbatim>\<open>/usr/local\<close> are ranked with the unreadable name first: the
  comparison function puts readable versions before unreadable ones, and \<^verbatim>\<open>reverse()\<close>
  then turns the whole order around.
\<close>

theorem ranking_puts_unparsable_first:
  "rankedFolderNames (usr_local_system [''cuda-9'', ''cuda-10'', ''cuda-bogus'']) ''cuda-''
       [''cuda-9'', ''cuda-10'', ''cuda-bogus'']
     = [''cuda-bogus'', ''cuda-10'', ''cuda-9''] \<and>
   getCudaInstallationPaths (usr_local_system [''cuda-9'', ''cuda-10'', ''cuda-bogus'']) Linux
     = [''/usr/local/cuda'', ''/usr/local/cuda-bogus'', ''/usr/local/cuda-10'',
        ''/usr/local/cuda-9'']"
  by code_simp





text \<open>
  C9. On win, \<open>hasCudaRuntime\<close> is true exactly when a CUDA runtime library, a cuBLAS
  library and a cuBLASLt library are each found: under some one of the accepted file
  names, in a default search location or in some one of the CUDA library search paths. On
  linux it is true exactly when these three classes and the CUDA driver library are each
  found in this way. So on both platforms it is true only if each of the three classes is
  found.
\<close>

theorem cuda_runtime_needs_every_library_class:
  "hasCudaRuntime (detectCudaSupport sys Win) =
     (foundAmong sys Win [''cudart64_110.dll'', ''cudart64_11.dll'', ''cudart64_12.dll'',
                          ''cudart64_13.dll''] \<and>
      foundAmong sys Win [''cublas64_11.dll'', ''cublas64_12.dll'', ''cublas64_13.dll''] \<and>
      foundAmong sys Win [''cublasLt64_11.dll'', ''cublasLt64_12.dll'', ''cublasLt64_13.dll'']) \<and>
   hasCudaRuntime (detectCudaSupport sys Linux) =
     (foundAmong sys Linux [''libcuda.so'', ''libcuda.so.1''] \<and>
      foundAmong sys Linux [''libcudart.so'', ''libcudart.so.11'', ''libcudart.so.12'',
                            ''libcudart.so.13''] \<and>
      foundAmong sys Linux [''libcublas.so'', ''libcublas.so.11'', ''libcublas.so.12'',
                            ''libcublas.so.13''] \<and>
      foundAmong sys Linux [''libcublasLt.so'', ''libcublasLt.so.11'', ''libcublasLt.so.12'',
                            ''libcublasLt.so.13''])"
  by (simp add: detectCudaSupport_def asyncEvery_def asyncSome_def foundAmong_def
        hasFileInPath_def Let_def)

theorem cuda_runtime_needs_every_library_class_witness:
  "hasCudaRuntime (detectCudaSupport (usr_local_system []) Linux) \<and>
   foundAmong (usr_local_system []) Linux [''libcublasLt.so'', ''libcublasLt.so.11'',
       ''libcublasLt.so.12'', ''libcublasLt.so.13'']"
proof -
  have "foundAmong (usr_local_system []) Linux names" if "names \<noteq> []" for names
    using that
    by (cases names)
       (simp_all add: foundAmong_def usr_local_system_def cudaLibrarySearchPaths_def present_def)
  then show ?thesis
    using cuda_runtime_needs_every_library_class [of "usr_local_system []"] by simp
qed

text \<open>
  C10. The object returned has the four keys cuda, vulkan, metal and sycl, in this order,
  and on a platform other than win and linux its cuda entry has both flags false.
\<close>

theorem four_layers_and_no_cuda_elsewhere:
  "map fst (detectAvailableComputeLayers sys p) = [''cuda'', ''vulkan'', ''metal'', ''sycl''] \<and>
   (p \<noteq> Win \<and> p \<noteq> Linux \<longrightarrow>
      map_of (detectAvailableComputeLayers sys p) ''cuda'' =
        Some (Cuda \<lparr>hasNvidiaDriver = False, hasCudaRuntime = False\<rparr>))"
  by (cases p) (simp_all add: detectAvailableComputeLayers_def detectCudaSupport_def)

theorem four_layers_and_no_cuda_elsewhere_witness:
  "map fst (detectAvailableComputeLayers bare_system Mac) =
     [''cuda'', ''vulkan'', ''metal'', ''sycl''] \<and>
   map_of (detectAvailableComputeLayers bare_system Mac) ''cuda'' =
     Some (Cuda \<lparr>hasNvidiaDriver = False, hasCudaRuntime = False\<rparr>)"
  using four_layers_and_no_cuda_elsewhere [of bare_system Mac] by simp

end
